theory Spec2Isabelle
  imports Main
begin

section \<open>Club management business logic (business\_logic.py)\<close>

text \<open>
  A shallow embedding of the class \<open>ClubManagementSystem\<close>. Every operation of the class
  is a validate, read, write, notify sequence wrapped in one \<open>try\<close>/\<open>except Exception\<close>;
  the model threads the persisted state through each step, so that a write made before a
  later exception is still visible in the resulting state, as it is in the store.
\<close>

subsection \<open>Enumerations\<close>

datatype UserRole = STUDENT | FACULTY | ADMIN

fun UserRole_value :: "UserRole \<Rightarrow> string" where
  "UserRole_value STUDENT = ''student''"
| "UserRole_value FACULTY = ''faculty''"
| "UserRole_value ADMIN = ''admin''"

datatype MembershipStatus = PENDING | ACTIVE | REJECTED

fun MembershipStatus_value :: "MembershipStatus \<Rightarrow> string" where
  "MembershipStatus_value MembershipStatus.PENDING = ''pending''"
| "MembershipStatus_value MembershipStatus.ACTIVE = ''active''"
| "MembershipStatus_value MembershipStatus.REJECTED = ''rejected''"

datatype EventStatus = DRAFT | PENDING | APPROVED | REJECTED | CANCELLED

fun EventStatus_value :: "EventStatus \<Rightarrow> string" where
  "EventStatus_value EventStatus.DRAFT = ''draft''"
| "EventStatus_value EventStatus.PENDING = ''pending''"
| "EventStatus_value EventStatus.APPROVED = ''approved''"
| "EventStatus_value EventStatus.REJECTED = ''rejected''"
| "EventStatus_value EventStatus.CANCELLED = ''cancelled''"

subsection \<open>Documents\<close>

text \<open>
  The documents are the dictionaries the operations build and store, with the fields they
  are created with. Roles and statuses are stored as the strings of the enumerations'
  values, as in the source. A key that a document may lack (\<open>studentId\<close>, \<open>year\<close>,
  \<open>approvedBy\<close>, \<open>approvalNotes\<close>, the \<open>password\<close> of a sanitized user) is an option.
  Timestamps are seconds as natural numbers. The type \<open>'o\<close> is the store's identifier type.
\<close>

record 'o user =
  u_id :: 'o
  u_name :: string
  u_email :: string
  u_password :: "string option"
  u_role :: string
  u_isActive :: bool
  u_createdAt :: nat
  u_studentId :: "string option"
  u_year :: "int option"
  u_department :: string
  u_clubs :: "(string \<times> string) list"

record 'o membership =
  m_userId :: 'o
  m_role :: string
  m_status :: string
  m_joinedAt :: nat

record 'o club =
  c_id :: 'o
  c_name :: string
  c_description :: string
  c_category :: string
  c_mission :: string
  c_vision :: string
  c_facultyCoordinator :: 'o
  c_establishedDate :: nat
  c_isActive :: bool
  c_members :: "'o membership list"
  c_events :: "'o list"
  c_createdAt :: nat

record 'o registration =
  r_userId :: 'o
  r_registeredAt :: nat

record 'o event =
  e_id :: 'o
  e_title :: string
  e_description :: string
  e_clubId :: 'o
  e_organizer :: 'o
  e_eventType :: string
  e_venue :: string
  e_date :: nat
  e_startTime :: string
  e_endTime :: string
  e_maxParticipants :: int
  e_budget_requested :: int
  e_budget_approved :: int
  e_status :: string
  e_registeredParticipants :: "'o registration list"
  e_createdAt :: nat
  e_approvedBy :: "'o option"
  e_approvalNotes :: "string option"

text \<open>
  The persisted state: the three collections of \<open>self.db\<close>, and the lines written by
  \<open>print\<close>.
\<close>

record 'o world =
  users :: "'o user list"
  clubs :: "'o club list"
  events :: "'o event list"
  stdout :: "string list"

subsection \<open>Request dictionaries\<close>

text \<open>
  A key of a request dictionary that may be absent is an option. The values have the types
  the operations use them at: names, emails, roles, identifiers and dates are strings,
  capacities and budgets are integers.
\<close>

record user_data =
  ud_name :: "string option"
  ud_email :: "string option"
  ud_password :: "string option"
  ud_role :: "string option"
  ud_studentId :: "string option"
  ud_year :: "int option"
  ud_department :: "string option"

record club_data =
  cd_name :: "string option"
  cd_description :: "string option"
  cd_category :: "string option"
  cd_mission :: "string option"
  cd_vision :: "string option"
  cd_establishedDate :: "nat option"

record event_data =
  ed_title :: "string option"
  ed_description :: "string option"
  ed_clubId :: "string option"
  ed_eventType :: "string option"
  ed_venue :: "string option"
  ed_date :: "string option"
  ed_startTime :: "string option"
  ed_endTime :: "string option"
  ed_maxParticipants :: "int option"
  ed_budget :: "int option"

record approver_data =
  ad_approvalNotes :: "string option"
  ad_approvedBudget :: "int option"

subsection \<open>External collaborators\<close>

text \<open>
  What the class calls but does not define is a parameter of the model.
  \<^item> \<open>ObjectId\<close> is used throughout the file and is neither defined nor imported there:
    \<open>ObjectId env s\<close> is the identifier built from the string \<open>s\<close>, \<open>None\<close> when the
    constructor raises; \<open>ObjectId_of env i\<close> is the constructor applied to an identifier
    (as in \<open>ObjectId(result.inserted_id)\<close>); \<open>str env i\<close> is \<open>str(i)\<close>.
  \<^item> \<open>utcnow env k\<close> is the value of the \<open>k\<close>-th call of \<open>datetime.utcnow()\<close> within
    one operation.
  \<^item> \<open>hashpw\<close>, \<open>gensalt\<close> are bcrypt's; \<open>jwt_encode\<close> signs the payload
    (id, email, role, exp) with \<open>jwt_secret\<close>.
  \<^item> \<open>strptime env s\<close> is \<open>datetime.strptime(s, "%Y-%m-%d")\<close>, \<open>None\<close> when it raises.
  \<^item> \<open>inserted_id env\<close> is the identifier the store gives the document inserted by
    the operation.
  \<^item> \<open>publish env channel message\<close> is \<open>self.redis.publish\<close> on the rendered message:
    \<open>None\<close> when it returns, \<open>Some e\<close> when it raises an exception whose text is \<open>e\<close>.
\<close>

datatype mval = S string | T nat

type_synonym message = "(string \<times> mval) list"

record 'o env =
  ObjectId :: "string \<Rightarrow> 'o option"
  ObjectId_of :: "'o \<Rightarrow> 'o option"
  str :: "'o \<Rightarrow> string"
  utcnow :: "nat \<Rightarrow> nat"
  hashpw :: "string \<Rightarrow> string \<Rightarrow> string"
  gensalt :: string
  jwt_encode :: "string \<times> string \<times> string \<times> nat \<Rightarrow> string \<Rightarrow> string"
  jwt_secret :: string
  strptime :: "string \<Rightarrow> nat option"
  inserted_id :: 'o
  publish :: "string \<Rightarrow> message \<Rightarrow> string option"

subsection \<open>Results\<close>

text \<open>
  Every operation returns a pair of a flag and a dictionary. \<open>Error msg\<close> is
  \<open>(False, {"error": msg})\<close> returned by an explicit check; \<open>Failed prefix e\<close> is the
  \<open>except Exception\<close> branch, \<open>(False, {"error": prefix + str(e)})\<close>; \<open>Ok msg p\<close> is
  \<open>(True, {"message": msg, ...})\<close> with the further entries \<open>p\<close>.
\<close>

datatype exn = InvalidId | TypeError | ValueError

datatype 'o payload =
  Only_message
| With_user string string "'o user"
| With_club string "'o club"
| With_event string "'o event"

datatype 'o reply =
  Error string
| Failed string exn
| Ok string "'o payload"

subsection \<open>The document store\<close>

text \<open>
  A collection is the list of its documents in insertion order. \<open>find_one\<close> returns the
  first document that matches the query, \<open>update_one\<close> changes the first document that
  matches and nothing when none does, \<open>replace_one\<close> replaces it, \<open>insert_one\<close> appends.
\<close>

definition find_one :: "('a \<Rightarrow> bool) \<Rightarrow> 'a list \<Rightarrow> 'a option" where
  "find_one q xs = List.find q xs"

fun update_one :: "('a \<Rightarrow> bool) \<Rightarrow> ('a \<Rightarrow> 'a) \<Rightarrow> 'a list \<Rightarrow> 'a list" where
  "update_one q f [] = []"
| "update_one q f (x # xs) = (if q x then f x # xs else x # update_one q f xs)"

definition replace_one :: "('a \<Rightarrow> bool) \<Rightarrow> 'a \<Rightarrow> 'a list \<Rightarrow> 'a list" where
  "replace_one q d xs = update_one q (\<lambda>_. d) xs"

definition insert_one :: "'a \<Rightarrow> 'a list \<Rightarrow> 'a list" where
  "insert_one d xs = xs @ [d]"

subsection \<open>Helper methods\<close>

text \<open>
  \<open>_publish_notification\<close>: the publish runs inside the helper's own \<open>try\<close>; an exception
  is printed and not raised again.
\<close>

definition publish_notification :: "'o env \<Rightarrow> string \<Rightarrow> message \<Rightarrow> 'o world \<Rightarrow> 'o world" where
  "publish_notification env channel msg w =
     (case publish env channel msg of
        None \<Rightarrow> w
      | Some e \<Rightarrow> w\<lparr>stdout := stdout w @ [''Failed to publish notification: '' @ e]\<rparr>)"

definition privileged_roles :: "string list" where
  "privileged_roles = [UserRole_value FACULTY, UserRole_value ADMIN]"

definition officer_roles :: "string list" where
  "officer_roles = [''president'', ''vice-president'', ''secretary'']"

text \<open>The loop of \<open>_can_approve_membership\<close> over \<open>club['members']\<close>.\<close>

fun officer_loop :: "'o env \<Rightarrow> 'o membership list \<Rightarrow> string \<Rightarrow> bool" where
  "officer_loop env [] user_id = False"
| "officer_loop env (member # rest) user_id =
     (if str env (m_userId member) = user_id
         \<and> m_status member = MembershipStatus_value MembershipStatus.ACTIVE
      then (if m_role member \<in> set officer_roles then True
            else officer_loop env rest user_id)
      else officer_loop env rest user_id)"

text \<open>\<open>_can_approve_membership\<close>; \<open>Inl\<close> is the exception of \<open>ObjectId(user_id)\<close>.\<close>

definition can_approve_membership ::
  "'o env \<Rightarrow> 'o world \<Rightarrow> 'o club \<Rightarrow> string \<Rightarrow> exn + bool" where
  "can_approve_membership env w club user_id =
     (case ObjectId env user_id of
        None \<Rightarrow> Inl InvalidId
      | Some uid \<Rightarrow>
          (case find_one (\<lambda>u. u_id u = uid) (users w) of
             Some user \<Rightarrow>
               if u_role user \<in> set privileged_roles then Inr True
               else Inr (officer_loop env (c_members club) user_id)
           | None \<Rightarrow> Inr (officer_loop env (c_members club) user_id)))"

text \<open>The loop of \<open>_can_create_event\<close> over \<open>club['members']\<close>.\<close>

fun active_loop :: "'o env \<Rightarrow> 'o membership list \<Rightarrow> string \<Rightarrow> bool" where
  "active_loop env [] user_id = False"
| "active_loop env (member # rest) user_id =
     (if str env (m_userId member) = user_id
         \<and> m_status member = MembershipStatus_value MembershipStatus.ACTIVE
      then True
      else active_loop env rest user_id)"

definition can_create_event ::
  "'o env \<Rightarrow> 'o world \<Rightarrow> 'o club \<Rightarrow> string \<Rightarrow> exn + bool" where
  "can_create_event env w club user_id =
     (case ObjectId env user_id of
        None \<Rightarrow> Inl InvalidId
      | Some uid \<Rightarrow>
          (case find_one (\<lambda>u. u_id u = uid) (users w) of
             Some user \<Rightarrow>
               if u_role user \<in> set privileged_roles then Inr True
               else Inr (active_loop env (c_members club) user_id)
           | None \<Rightarrow> Inr (active_loop env (c_members club) user_id)))"

text \<open>\<open>_generate_token\<close>; \<open>now\<close> is the value of its call of \<open>datetime.utcnow()\<close>.\<close>

definition token_expiry :: nat where
  "token_expiry = 24 * 3600"

definition generate_token :: "'o env \<Rightarrow> string \<Rightarrow> string \<Rightarrow> string \<Rightarrow> nat \<Rightarrow> string" where
  "generate_token env id_str email role now =
     jwt_encode env (id_str, email, role, now + token_expiry) (jwt_secret env)"

text \<open>
  \<open>_sanitize_user\<close> removes the password; the string that replaces \<open>_id\<close> is carried
  beside the document in the payload.
\<close>

definition sanitize_user :: "'o user \<Rightarrow> 'o user" where
  "sanitize_user u = u\<lparr>u_password := None\<rparr>"

subsection \<open>User management\<close>

definition register_user :: "'o env \<Rightarrow> user_data \<Rightarrow> 'o world \<Rightarrow> 'o reply \<times> 'o world" where
  "register_user env ud w =
     (if ud_name ud = None \<or> ud_email ud = None \<or> ud_password ud = None \<or> ud_role ud = None
      then (Error ''Missing required fields'', w)
      else if find_one (\<lambda>u. Some (u_email u) = ud_email ud) (users w) \<noteq> None
      then (Error ''Email already exists'', w)
      else if ud_role ud = Some (UserRole_value STUDENT)
              \<and> (ud_studentId ud = None \<or> ud_year ud = None)
      then (Error ''Student ID and year required for students'', w)
      else if ud_role ud = Some (UserRole_value STUDENT)
              \<and> find_one (\<lambda>u. u_studentId u = ud_studentId ud) (users w) \<noteq> None
      then (Error ''Student ID already exists'', w)
      else
        let student = (ud_role ud = Some (UserRole_value STUDENT));
            user = \<lparr>u_id = inserted_id env,
                    u_name = the (ud_name ud),
                    u_email = the (ud_email ud),
                    u_password = Some (hashpw env (the (ud_password ud)) (gensalt env)),
                    u_role = the (ud_role ud),
                    u_isActive = True,
                    u_createdAt = utcnow env 0,
                    u_studentId = (if student then ud_studentId ud else None),
                    u_year = (if student then ud_year ud else None),
                    u_department = (case ud_department ud of None \<Rightarrow> [] | Some d \<Rightarrow> d),
                    u_clubs = []\<rparr>;
            w1 = w\<lparr>users := insert_one user (users w)\<rparr>;
            sid = str env (inserted_id env);
            token = generate_token env sid (u_email user) (u_role user) (utcnow env 1)
        in (Ok ''User registered successfully'' (With_user token sid (sanitize_user user)), w1))"

subsection \<open>Club management\<close>

definition create_club ::
  "'o env \<Rightarrow> club_data \<Rightarrow> string \<Rightarrow> 'o world \<Rightarrow> 'o reply \<times> 'o world" where
  "create_club env cd creator_id w =
     (case ObjectId env creator_id of
        None \<Rightarrow> (Failed ''Failed to create club: '' InvalidId, w)
      | Some crid \<Rightarrow>
          (case find_one (\<lambda>u. u_id u = crid) (users w) of
             None \<Rightarrow> (Error ''Unauthorized to create clubs'', w)
           | Some creator \<Rightarrow>
               if u_role creator \<notin> set privileged_roles
               then (Error ''Unauthorized to create clubs'', w)
               else if cd_name cd = None \<or> cd_description cd = None \<or> cd_category cd = None
                       \<or> cd_mission cd = None \<or> cd_vision cd = None
               then (Error ''Missing required fields'', w)
               else if find_one (\<lambda>c. Some (c_name c) = cd_name cd) (clubs w) \<noteq> None
               then (Error ''Club name already exists'', w)
               else
                 let club = \<lparr>c_id = inserted_id env,
                             c_name = the (cd_name cd),
                             c_description = the (cd_description cd),
                             c_category = the (cd_category cd),
                             c_mission = the (cd_mission cd),
                             c_vision = the (cd_vision cd),
                             c_facultyCoordinator = crid,
                             c_establishedDate =
                               (case cd_establishedDate cd of
                                  None \<Rightarrow> utcnow env 0 | Some d \<Rightarrow> d),
                             c_isActive = True,
                             c_members = [],
                             c_events = [],
                             c_createdAt = utcnow env 1\<rparr>;
                     w1 = w\<lparr>clubs := insert_one club (clubs w)\<rparr>;
                     sid = str env (inserted_id env);
                     w2 = publish_notification env ''club-updates''
                            [(''type'', S ''club-created''),
                             (''clubId'', S sid),
                             (''clubName'', S (c_name club)),
                             (''timestamp'', T (utcnow env 2))] w1
                 in (Ok ''Club created successfully'' (With_club sid club), w2)))"

text \<open>The loop of \<open>join_club\<close> that looks for a membership of the user.\<close>

fun member_loop :: "'o env \<Rightarrow> 'o membership list \<Rightarrow> string \<Rightarrow> bool" where
  "member_loop env [] user_id = False"
| "member_loop env (member # rest) user_id =
     (if str env (m_userId member) = user_id then True else member_loop env rest user_id)"

definition join_club :: "'o env \<Rightarrow> string \<Rightarrow> string \<Rightarrow> 'o world \<Rightarrow> 'o reply \<times> 'o world" where
  "join_club env club_id user_id w =
     (case ObjectId env club_id of
        None \<Rightarrow> (Failed ''Failed to join club: '' InvalidId, w)
      | Some cid \<Rightarrow>
          (case find_one (\<lambda>c. c_id c = cid) (clubs w) of
             None \<Rightarrow> (Error ''Club not found'', w)
           | Some club \<Rightarrow>
               if \<not> c_isActive club then (Error ''Club not found'', w)
               else if member_loop env (c_members club) user_id
               then (Error ''Already a member of this club'', w)
               else
                 (case ObjectId env user_id of
                    None \<Rightarrow> (Failed ''Failed to join club: '' InvalidId, w)
                  | Some uid \<Rightarrow>
                      let membership = \<lparr>m_userId = uid,
                                        m_role = ''member'',
                                        m_status = MembershipStatus_value MembershipStatus.PENDING,
                                        m_joinedAt = utcnow env 0\<rparr>;
                          w1 = w\<lparr>clubs := update_one (\<lambda>c. c_id c = cid)
                                   (\<lambda>c. c\<lparr>c_members := c_members c @ [membership]\<rparr>) (clubs w)\<rparr>;
                          w2 = w1\<lparr>users := update_one (\<lambda>u. u_id u = uid)
                                   (\<lambda>u. u\<lparr>u_clubs := u_clubs u @ [(club_id, ''member'')]\<rparr>)
                                   (users w1)\<rparr>
                      in (case find_one (\<lambda>u. u_id u = uid) (users w2) of
                            None \<Rightarrow> (Failed ''Failed to join club: '' TypeError, w2)
                          | Some user \<Rightarrow>
                              (Ok ''Membership request sent successfully'' Only_message,
                               publish_notification env ''club-updates''
                                 [(''type'', S ''membership-request''),
                                  (''clubId'', S club_id),
                                  (''userId'', S user_id),
                                  (''clubName'', S (c_name club)),
                                  (''userName'', S (u_name user)),
                                  (''timestamp'', T (utcnow env 1))] w2)))))"

text \<open>
  The loop of \<open>approve_membership\<close>: the flag \<open>updated\<close> and the member list after the
  loop. The first membership of the user is set to active and the loop stops.
\<close>

fun approve_loop :: "'o env \<Rightarrow> 'o membership list \<Rightarrow> string \<Rightarrow> bool \<times> 'o membership list" where
  "approve_loop env [] member_id = (False, [])"
| "approve_loop env (member # rest) member_id =
     (if str env (m_userId member) = member_id
      then (True, member\<lparr>m_status := MembershipStatus_value MembershipStatus.ACTIVE\<rparr> # rest)
      else (let (updated, rest') = approve_loop env rest member_id
            in (updated, member # rest')))"

definition approve_membership ::
  "'o env \<Rightarrow> string \<Rightarrow> string \<Rightarrow> string \<Rightarrow> 'o world \<Rightarrow> 'o reply \<times> 'o world" where
  "approve_membership env club_id member_id approver_id w =
     (case ObjectId env club_id of
        None \<Rightarrow> (Failed ''Failed to approve membership: '' InvalidId, w)
      | Some cid \<Rightarrow>
          (case find_one (\<lambda>c. c_id c = cid) (clubs w) of
             None \<Rightarrow> (Error ''Club not found'', w)
           | Some club \<Rightarrow>
               (case can_approve_membership env w club approver_id of
                  Inl e \<Rightarrow> (Failed ''Failed to approve membership: '' e, w)
                | Inr allowed \<Rightarrow>
                    if \<not> allowed then (Error ''Insufficient permissions'', w)
                    else
                      let (updated, members') = approve_loop env (c_members club) member_id
                      in if \<not> updated then (Error ''Member not found'', w)
                         else (Ok ''Membership approved successfully'' Only_message,
                               w\<lparr>clubs := replace_one (\<lambda>c. c_id c = cid)
                                   (club\<lparr>c_members := members'\<rparr>) (clubs w)\<rparr>))))"

subsection \<open>Event management\<close>

definition create_event ::
  "'o env \<Rightarrow> event_data \<Rightarrow> string \<Rightarrow> 'o world \<Rightarrow> 'o reply \<times> 'o world" where
  "create_event env ed creator_id w =
     (if ed_title ed = None \<or> ed_description ed = None \<or> ed_clubId ed = None
         \<or> ed_eventType ed = None \<or> ed_venue ed = None \<or> ed_date ed = None
         \<or> ed_startTime ed = None \<or> ed_endTime ed = None
      then (Error ''Missing required fields'', w)
      else
        (case ObjectId env (the (ed_clubId ed)) of
           None \<Rightarrow> (Failed ''Failed to create event: '' InvalidId, w)
         | Some cid \<Rightarrow>
             (case find_one (\<lambda>c. c_id c = cid) (clubs w) of
                None \<Rightarrow> (Error ''Club not found'', w)
              | Some club \<Rightarrow>
                  if \<not> c_isActive club then (Error ''Club not found'', w)
                  else
                    (case can_create_event env w club creator_id of
                       Inl e \<Rightarrow> (Failed ''Failed to create event: '' e, w)
                     | Inr allowed \<Rightarrow>
                         if \<not> allowed
                         then (Error ''Not authorized to create events for this club'', w)
                         else
                           (case ObjectId env creator_id of
                              None \<Rightarrow> (Failed ''Failed to create event: '' InvalidId, w)
                            | Some crid \<Rightarrow>
                                (case strptime env (the (ed_date ed)) of
                                   None \<Rightarrow> (Failed ''Failed to create event: '' ValueError, w)
                                 | Some d \<Rightarrow>
     let event = \<lparr>e_id = inserted_id env,
                  e_title = the (ed_title ed),
                  e_description = the (ed_description ed),
                  e_clubId = cid,
                  e_organizer = crid,
                  e_eventType = the (ed_eventType ed),
                  e_venue = the (ed_venue ed),
                  e_date = d,
                  e_startTime = the (ed_startTime ed),
                  e_endTime = the (ed_endTime ed),
                  e_maxParticipants = (case ed_maxParticipants ed of None \<Rightarrow> 0 | Some n \<Rightarrow> n),
                  e_budget_requested = (case ed_budget ed of None \<Rightarrow> 0 | Some b \<Rightarrow> b),
                  e_budget_approved = 0,
                  e_status = EventStatus_value EventStatus.PENDING,
                  e_registeredParticipants = [],
                  e_createdAt = utcnow env 0,
                  e_approvedBy = None,
                  e_approvalNotes = None\<rparr>;
         w1 = w\<lparr>events := insert_one event (events w)\<rparr>;
         sid = str env (inserted_id env)
     in (case ObjectId_of env (inserted_id env) of
           None \<Rightarrow> (Failed ''Failed to create event: '' InvalidId, w1)
         | Some eid \<Rightarrow>
             let w2 = w1\<lparr>clubs := update_one (\<lambda>c. c_id c = cid)
                            (\<lambda>c. c\<lparr>c_events := c_events c @ [eid]\<rparr>) (clubs w1)\<rparr>
             in (case find_one (\<lambda>u. u_id u = crid) (users w2) of
                   None \<Rightarrow> (Failed ''Failed to create event: '' TypeError, w2)
                 | Some creator \<Rightarrow>
                     (Ok ''Event created successfully'' (With_event sid event),
                      publish_notification env ''event-updates''
                        [(''type'', S ''event-created''),
                         (''eventId'', S sid),
                         (''clubId'', S (the (ed_clubId ed))),
                         (''title'', S (e_title event)),
                         (''organizer'', S (u_name creator)),
                         (''timestamp'', T (utcnow env 1))] w2)))))))))"

text \<open>The loop of \<open>register_for_event\<close> that looks for a registration of the user.\<close>

fun participant_loop :: "'o env \<Rightarrow> 'o registration list \<Rightarrow> string \<Rightarrow> bool" where
  "participant_loop env [] user_id = False"
| "participant_loop env (participant # rest) user_id =
     (if str env (r_userId participant) = user_id then True
      else participant_loop env rest user_id)"

definition register_for_event ::
  "'o env \<Rightarrow> string \<Rightarrow> string \<Rightarrow> 'o world \<Rightarrow> 'o reply \<times> 'o world" where
  "register_for_event env event_id user_id w =
     (case ObjectId env event_id of
        None \<Rightarrow> (Failed ''Failed to register for event: '' InvalidId, w)
      | Some eid \<Rightarrow>
          (case find_one (\<lambda>e. e_id e = eid) (events w) of
             None \<Rightarrow> (Error ''Event not found'', w)
           | Some event \<Rightarrow>
               if participant_loop env (e_registeredParticipants event) user_id
               then (Error ''Already registered for this event'', w)
               else if e_maxParticipants event > 0
                       \<and> int (length (e_registeredParticipants event)) \<ge> e_maxParticipants event
               then (Error ''Event is full'', w)
               else
                 (case ObjectId env user_id of
                    None \<Rightarrow> (Failed ''Failed to register for event: '' InvalidId, w)
                  | Some uid \<Rightarrow>
                      let registration = \<lparr>r_userId = uid, r_registeredAt = utcnow env 0\<rparr>
                      in (Ok ''Successfully registered for event'' Only_message,
                          w\<lparr>events := update_one (\<lambda>e. e_id e = eid)
                               (\<lambda>e. e\<lparr>e_registeredParticipants :=
                                         e_registeredParticipants e @ [registration]\<rparr>)
                               (events w)\<rparr>))))"

definition approve_event ::
  "'o env \<Rightarrow> string \<Rightarrow> approver_data \<Rightarrow> string \<Rightarrow> 'o world \<Rightarrow> 'o reply \<times> 'o world" where
  "approve_event env event_id ad approver_id w =
     (case ObjectId env approver_id of
        None \<Rightarrow> (Failed ''Failed to approve event: '' InvalidId, w)
      | Some aid \<Rightarrow>
          (case find_one (\<lambda>u. u_id u = aid) (users w) of
             None \<Rightarrow> (Error ''Unauthorized to approve events'', w)
           | Some approver \<Rightarrow>
               if u_role approver \<notin> set privileged_roles
               then (Error ''Unauthorized to approve events'', w)
               else
                 (case ObjectId env event_id of
                    None \<Rightarrow> (Failed ''Failed to approve event: '' InvalidId, w)
                  | Some eid \<Rightarrow>
                      (case find_one (\<lambda>e. e_id e = eid) (events w) of
                         None \<Rightarrow> (Error ''Event not found'', w)
                       | Some event \<Rightarrow>
                           let w1 = w\<lparr>events := update_one (\<lambda>e. e_id e = eid)
                                      (\<lambda>e. e\<lparr>e_status := EventStatus_value EventStatus.APPROVED,
                                              e_approvedBy := Some aid,
                                              e_approvalNotes :=
                                                Some (case ad_approvalNotes ad of
                                                        None \<Rightarrow> [] | Some n \<Rightarrow> n),
                                              e_budget_approved :=
                                                (case ad_approvedBudget ad of
                                                   None \<Rightarrow> 0 | Some b \<Rightarrow> b)\<rparr>)
                                      (events w)\<rparr>
                           in (case find_one (\<lambda>c. c_id c = e_clubId event) (clubs w1) of
                                 None \<Rightarrow> (Failed ''Failed to approve event: '' TypeError, w1)
                               | Some club \<Rightarrow>
                                   (Ok ''Event approved successfully'' Only_message,
                                    publish_notification env ''event-updates''
                                      [(''type'', S ''event-approved''),
                                       (''eventId'', S event_id),
                                       (''title'', S (e_title event)),
                                       (''clubName'', S (c_name club)),
                                       (''approvedBy'', S (u_name approver)),
                                       (''timestamp'', T (utcnow env 0))] w1))))))"

subsection \<open>Sequences of registrations\<close>

text \<open>
  A run of \<open>register_user\<close> calls, each with its own collaborators (clock, inserted
  identifier) and request, threading the state; the replies are dropped.
\<close>

fun register_users :: "('o env \<times> user_data) list \<Rightarrow> 'o world \<Rightarrow> 'o world" where
  "register_users [] w = w"
| "register_users ((env, ud) # rest) w = register_users rest (snd (register_user env ud w))"

subsection \<open>The operations that write\<close>

text \<open>
  A call of one of the seven methods that write to the store. The other methods of the
  class (\<open>login_user\<close>, \<open>get_user_profile\<close>, \<open>get_clubs\<close>, \<open>get_events\<close>,
  \<open>get_dashboard_stats\<close>, \<open>get_pending_approvals\<close>) only read it.
\<close>

datatype call =
  Register_user user_data
| Create_club club_data string
| Join_club string string
| Approve_membership string string string
| Create_event event_data string
| Register_for_event string string
| Approve_event string approver_data string

fun run :: "'o env \<Rightarrow> call \<Rightarrow> 'o world \<Rightarrow> 'o reply \<times> 'o world" where
  "run env (Register_user ud) w = register_user env ud w"
| "run env (Create_club cd creator_id) w = create_club env cd creator_id w"
| "run env (Join_club club_id user_id) w = join_club env club_id user_id w"
| "run env (Approve_membership club_id member_id approver_id) w =
     approve_membership env club_id member_id approver_id w"
| "run env (Create_event ed creator_id) w = create_event env ed creator_id w"
| "run env (Register_for_event event_id user_id) w = register_for_event env event_id user_id w"
| "run env (Approve_event event_id ad approver_id) w = approve_event env event_id ad approver_id w"

subsection \<open>State predicates used by the properties\<close>

text \<open>Every email occurs at most once in the user collection.\<close>

definition unique_emails :: "'o world \<Rightarrow> bool" where
  "unique_emails w = distinct (map u_email (users w))"

text \<open>Every student-id carried by a user document occurs at most once.\<close>

definition unique_student_ids :: "'o world \<Rightarrow> bool" where
  "unique_student_ids w = distinct (List.map_filter u_studentId (users w))"

text \<open>
  The global role of an actor: the role of the user document that the actor's identifier
  finds, \<open>None\<close> when the identifier is refused or finds no document.
\<close>

definition global_role :: "'o env \<Rightarrow> 'o world \<Rightarrow> string \<Rightarrow> string option" where
  "global_role env w user_id =
     (case ObjectId env user_id of
        None \<Rightarrow> None
      | Some uid \<Rightarrow> map_option u_role (find_one (\<lambda>u. u_id u = uid) (users w)))"

text \<open>The memberships of a club that belong to the user with the string identifier.\<close>

definition memberships_of :: "'o env \<Rightarrow> 'o club \<Rightarrow> string \<Rightarrow> 'o membership list" where
  "memberships_of env club user_id =
     filter (\<lambda>m. str env (m_userId m) = user_id) (c_members club)"

text \<open>
  How the memberships of the stored clubs may differ between two states. A membership is
  stepped when it is unchanged or differs only in that its status has been set to active.
  A club is stepped (kept) when its old memberships, in their positions, are stepped
  (unchanged) and every further membership is pending. A club list is related when its old
  clubs, in their positions, are related and every further club has no membership.
\<close>

definition member_step :: "'o membership \<Rightarrow> 'o membership \<Rightarrow> bool" where
  "member_step m m' =
     (m' = m \<or> m' = m\<lparr>m_status := MembershipStatus_value MembershipStatus.ACTIVE\<rparr>)"

definition new_members_pending :: "'o club \<Rightarrow> 'o club \<Rightarrow> bool" where
  "new_members_pending c c' =
     list_all (\<lambda>m. m_status m = MembershipStatus_value MembershipStatus.PENDING)
       (drop (length (c_members c)) (c_members c'))"

definition club_step :: "'o club \<Rightarrow> 'o club \<Rightarrow> bool" where
  "club_step c c' =
     (list_all2 member_step (c_members c) (take (length (c_members c)) (c_members c'))
      \<and> new_members_pending c c')"

definition club_kept :: "'o club \<Rightarrow> 'o club \<Rightarrow> bool" where
  "club_kept c c' =
     (c_members c = take (length (c_members c)) (c_members c') \<and> new_members_pending c c')"

definition clubs_rel :: "('o club \<Rightarrow> 'o club \<Rightarrow> bool) \<Rightarrow> 'o club list \<Rightarrow> 'o club list \<Rightarrow> bool" where
  "clubs_rel R cs cs' =
     (list_all2 R cs (take (length cs) cs')
      \<and> list_all (\<lambda>c. c_members c = []) (drop (length cs) cs'))"

text \<open>An event with its status blanked: what is left is everything but the status.\<close>

definition erase_status :: "'o event \<Rightarrow> 'o event" where
  "erase_status e = e\<lparr>e_status := []\<rparr>"

text \<open>The persisted collections, without the console.\<close>

definition db :: "'o world \<Rightarrow> 'o user list \<times> 'o club list \<times> 'o event list" where
  "db w = (users w, clubs w, events w)"

section \<open>Example data\<close>

text \<open>
  Collaborators with string identifiers: \<open>ObjectId\<close> rejects the empty string and
  otherwise wraps the string, whose string form is the string itself; the publish succeeds.
\<close>

definition demo_env :: "string env" where
  "demo_env =
     \<lparr>ObjectId = (\<lambda>s. if s = [] then None else Some s),
      ObjectId_of = Some,
      str = (\<lambda>i. i),
      utcnow = (\<lambda>k. 1000 + k),
      hashpw = (\<lambda>p s. s @ p),
      gensalt = ''salt'',
      jwt_encode = (\<lambda>(i, e, r, x) k. i @ e @ r @ k),
      jwt_secret = ''secret'',
      strptime = (\<lambda>s. if s = [] then None else Some 2000),
      inserted_id = ''n1'',
      publish = (\<lambda>c m. None)\<rparr>"

text \<open>The same collaborators with a notification channel that is down.\<close>

definition demo_env_down :: "string env" where
  "demo_env_down = demo_env\<lparr>publish := (\<lambda>c m. Some ''connection refused'')\<rparr>"

text \<open>
  Collaborators whose \<open>ObjectId\<close> reads the hexadecimal digits of a string in either
  case and whose string form is written in lower case, so that \<open>''A1''\<close> and \<open>''a1''\<close>
  build the same identifier, whose string form is \<open>''a1''\<close>.
\<close>

definition hex_lower :: "char \<Rightarrow> char" where
  "hex_lower c =
     (if c = CHR ''A'' then CHR ''a'' else if c = CHR ''B'' then CHR ''b''
      else if c = CHR ''C'' then CHR ''c'' else if c = CHR ''D'' then CHR ''d''
      else if c = CHR ''E'' then CHR ''e'' else if c = CHR ''F'' then CHR ''f'' else c)"

definition demo_env_fold :: "string env" where
  "demo_env_fold =
     demo_env\<lparr>ObjectId := (\<lambda>s. if s = [] then None else Some (map hex_lower s))\<rparr>"

definition demo_user :: "string \<Rightarrow> string \<Rightarrow> string \<Rightarrow> string option \<Rightarrow> string user" where
  "demo_user i email role sid =
     \<lparr>u_id = i, u_name = i, u_email = email, u_password = Some ''hash'', u_role = role,
      u_isActive = True, u_createdAt = 1, u_studentId = sid, u_year = map_option (\<lambda>_. 2) sid,
      u_department = ''CSE'', u_clubs = []\<rparr>"

definition demo_member :: "string \<Rightarrow> string \<Rightarrow> string \<Rightarrow> string membership" where
  "demo_member i role status = \<lparr>m_userId = i, m_role = role, m_status = status, m_joinedAt = 5\<rparr>"

definition demo_club :: "string club" where
  "demo_club =
     \<lparr>c_id = ''c1'', c_name = ''Chess'', c_description = ''d'', c_category = ''games'',
      c_mission = ''m'', c_vision = ''v'', c_facultyCoordinator = ''f1'',
      c_establishedDate = 1, c_isActive = True,
      c_members = [demo_member ''p1'' ''president'' ''active'',
                   demo_member ''a1'' ''member'' ''active'',
                   demo_member ''b1'' ''member'' ''pending'',
                   demo_member ''r1'' ''member'' ''rejected''],
      c_events = [''e1''], c_createdAt = 1\<rparr>"

definition demo_event :: "string \<Rightarrow> string \<Rightarrow> int \<Rightarrow> string list \<Rightarrow> string event" where
  "demo_event i status cap regs =
     \<lparr>e_id = i, e_title = ''Open'', e_description = ''d'', e_clubId = ''c1'',
      e_organizer = ''p1'', e_eventType = ''t'', e_venue = ''hall'', e_date = 2000,
      e_startTime = ''10:00'', e_endTime = ''11:00'', e_maxParticipants = cap,
      e_budget_requested = 10, e_budget_approved = 0, e_status = status,
      e_registeredParticipants = map (\<lambda>u. \<lparr>r_userId = u, r_registeredAt = 7\<rparr>) regs,
      e_createdAt = 6, e_approvedBy = None, e_approvalNotes = None\<rparr>"

definition demo_world :: "string world" where
  "demo_world =
     \<lparr>users = [demo_user ''f1'' ''f@x'' ''faculty'' None,
               demo_user ''p1'' ''p@x'' ''student'' (Some ''S1''),
               demo_user ''a1'' ''a@x'' ''student'' (Some ''S2''),
               demo_user ''b1'' ''b@x'' ''student'' (Some ''S3''),
               demo_user ''r1'' ''r@x'' ''student'' (Some ''S4''),
               demo_user ''z1'' ''z@x'' ''student'' (Some ''S5'')],
      clubs = [demo_club],
      events = [demo_event ''e1'' ''pending'' 2 [''a1''],
                demo_event ''e2'' ''cancelled'' 0 [],
                demo_event ''e3'' ''approved'' 1 [''a1'']],
      stdout = []\<rparr>"

definition demo_student :: user_data where
  "demo_student =
     \<lparr>ud_name = Some ''New'', ud_email = Some ''n@x'', ud_password = Some ''pw'',
      ud_role = Some ''student'', ud_studentId = Some ''S9'', ud_year = Some 1,
      ud_department = None\<rparr>"

definition demo_club_data :: club_data where
  "demo_club_data =
     \<lparr>cd_name = Some ''Robotics'', cd_description = Some ''d'', cd_category = Some ''tech'',
      cd_mission = Some ''m'', cd_vision = Some ''v'', cd_establishedDate = None\<rparr>"

definition demo_event_data :: event_data where
  "demo_event_data =
     \<lparr>ed_title = Some ''Talk'', ed_description = Some ''d'', ed_clubId = Some ''c1'',
      ed_eventType = Some ''t'', ed_venue = Some ''hall'', ed_date = Some ''2025-01-01'',
      ed_startTime = Some ''10:00'', ed_endTime = Some ''11:00'',
      ed_maxParticipants = None, ed_budget = None\<rparr>"

definition demo_approval :: approver_data where
  "demo_approval = \<lparr>ad_approvalNotes = None, ad_approvedBudget = None\<rparr>"

section \<open>Properties\<close>

subsection \<open>The document store\<close>

lemma find_one_None_iff: "find_one q xs = None \<longleftrightarrow> (\<forall>x\<in>set xs. \<not> q x)"
  by (auto simp: find_one_def find_None_iff)

lemma find_one_Nil: "find_one q [] = None"
  by (simp add: find_one_def)

lemma find_one_Some_holds: "find_one q xs = Some x \<Longrightarrow> q x"
  by (auto simp: find_one_def find_Some_iff)

lemma find_one_Cons:
  "find_one q (x # xs) = (if q x then Some x else find_one q xs)"
  by (simp add: find_one_def)

lemma length_update_one: "length (update_one q f xs) = length xs"
  by (induction xs) simp_all

lemma find_one_update_one:
  assumes "\<And>x. q x \<Longrightarrow> q (f x)"
  shows "find_one q (update_one q f xs) = map_option f (find_one q xs)"
  using assms by (induction xs) (simp_all add: find_one_Cons find_one_Nil)

lemma update_one_same: "find_one q xs = Some x \<Longrightarrow> update_one q (\<lambda>_. x) xs = xs"
  by (induction xs) (simp_all add: find_one_Cons find_one_Nil split: if_splits)

lemma replace_one_same: "find_one q xs = Some x \<Longrightarrow> replace_one q x xs = xs"
  by (simp add: replace_one_def update_one_same)

lemma find_one_replace_one:
  assumes "find_one q xs = Some x" and "q d"
  shows "find_one q (replace_one q d xs) = Some d"
  using assms unfolding replace_one_def
  by (induction xs) (simp_all add: find_one_Cons find_one_Nil split: if_splits)

subsection \<open>The loops\<close>

lemma member_loop_iff:
  "member_loop env ms user_id \<longleftrightarrow> (\<exists>m\<in>set ms. str env (m_userId m) = user_id)"
  by (induction ms) auto

lemma member_loop_memberships_of:
  "member_loop env (c_members club) user_id \<longleftrightarrow> memberships_of env club user_id \<noteq> []"
  by (auto simp: member_loop_iff memberships_of_def filter_empty_conv)

lemma participant_loop_iff:
  "participant_loop env rs user_id \<longleftrightarrow> (\<exists>r\<in>set rs. str env (r_userId r) = user_id)"
  by (induction rs) auto

lemma officer_loop_iff:
  "officer_loop env ms user_id \<longleftrightarrow>
     (\<exists>m\<in>set ms. str env (m_userId m) = user_id
        \<and> m_status m = MembershipStatus_value MembershipStatus.ACTIVE
        \<and> m_role m \<in> set officer_roles)"
  by (induction ms) auto

lemma active_loop_iff:
  "active_loop env ms user_id \<longleftrightarrow>
     (\<exists>m\<in>set ms. str env (m_userId m) = user_id
        \<and> m_status m = MembershipStatus_value MembershipStatus.ACTIVE)"
  by (induction ms) auto

lemma approve_loop_not_found:
  "\<not> member_loop env ms member_id \<Longrightarrow> approve_loop env ms member_id = (False, ms)"
  by (induction ms) (simp_all split: if_splits)

lemma approve_loop_first:
  assumes "\<forall>x\<in>set pre. str env (m_userId x) \<noteq> member_id"
    and "str env (m_userId m) = member_id"
  shows "approve_loop env (pre @ m # post) member_id =
           (True, pre @ m\<lparr>m_status := MembershipStatus_value MembershipStatus.ACTIVE\<rparr> # post)"
  using assms by (induction pre) simp_all

lemma approve_loop_fst: "fst (approve_loop env ms member_id) = member_loop env ms member_id"
  by (induction ms) (simp_all add: case_prod_beta)

subsection \<open>The notification helper writes to the console only\<close>

lemma users_publish_notification: "users (publish_notification env c m w) = users w"
  by (simp add: publish_notification_def split: option.splits)

lemma clubs_publish_notification: "clubs (publish_notification env c m w) = clubs w"
  by (simp add: publish_notification_def split: option.splits)

lemma events_publish_notification: "events (publish_notification env c m w) = events w"
  by (simp add: publish_notification_def split: option.splits)

lemmas collections_publish_notification =
  users_publish_notification clubs_publish_notification events_publish_notification

subsection \<open>Authorization policy\<close>





subsection \<open>Event lifecycle\<close>

text \<open>
  Claim C2. \<open>approve_event\<close> decides by the global role alone. For an approver whose
  identifier \<open>ObjectId\<close> accepts and whose global role is not faculty or admin (a student
  who is an active officer of the club included, or an identifier without a user document)
  it returns the error ``Unauthorized to approve events'' and changes nothing. When the
  approver is faculty or admin and the event exists, the stored event afterwards has status
  approved, the approver's identifier as \<open>approvedBy\<close>, the approval notes (the empty
  string when absent) and the approved budget (0 when absent).
\<close>

theorem approve_event_global_role_only:
  assumes "ObjectId env approver_id = Some aid"
  shows "(global_role env w approver_id \<noteq> Some (UserRole_value FACULTY)
            \<and> global_role env w approver_id \<noteq> Some (UserRole_value ADMIN)
          \<longrightarrow> approve_event env event_id ad approver_id w
                = (Error ''Unauthorized to approve events'', w))
       \<and> ((global_role env w approver_id = Some (UserRole_value FACULTY)
             \<or> global_role env w approver_id = Some (UserRole_value ADMIN))
            \<and> ObjectId env event_id = Some eid
            \<and> find_one (\<lambda>e. e_id e = eid) (events w) = Some event
          \<longrightarrow> find_one (\<lambda>e. e_id e = eid) (events (snd (approve_event env event_id ad approver_id w)))
                = Some (event\<lparr>e_status := EventStatus_value EventStatus.APPROVED,
                              e_approvedBy := Some aid,
                              e_approvalNotes :=
                                Some (case ad_approvalNotes ad of None \<Rightarrow> '''' | Some n \<Rightarrow> n),
                              e_budget_approved :=
                                (case ad_approvedBudget ad of None \<Rightarrow> 0 | Some b \<Rightarrow> b)\<rparr>))"
proof (intro conjI impI)
  assume "global_role env w approver_id \<noteq> Some (UserRole_value FACULTY)
            \<and> global_role env w approver_id \<noteq> Some (UserRole_value ADMIN)"
  with assms show "approve_event env event_id ad approver_id w
                = (Error ''Unauthorized to approve events'', w)"
    by (auto simp: approve_event_def global_role_def privileged_roles_def split: option.splits)
next
  let ?q = "\<lambda>e. e_id e = eid"
  let ?f = "\<lambda>e. e\<lparr>e_status := EventStatus_value EventStatus.APPROVED,
                              e_approvedBy := Some aid,
                              e_approvalNotes :=
                                Some (case ad_approvalNotes ad of None \<Rightarrow> '''' | Some n \<Rightarrow> n),
                              e_budget_approved :=
                                (case ad_approvedBudget ad of None \<Rightarrow> 0 | Some b \<Rightarrow> b)\<rparr>"
  assume a: "(global_role env w approver_id = Some (UserRole_value FACULTY)
             \<or> global_role env w approver_id = Some (UserRole_value ADMIN))
            \<and> ObjectId env event_id = Some eid
            \<and> find_one (\<lambda>e. e_id e = eid) (events w) = Some event"
  have upd: "find_one ?q (update_one ?q ?f (events w)) = Some (?f event)"
    using a by (simp add: find_one_update_one)
  have "events (snd (approve_event env event_id ad approver_id w)) = update_one ?q ?f (events w)"
    using assms a
    by (auto simp: approve_event_def global_role_def privileged_roles_def Let_def
          events_publish_notification split: option.splits)
  with upd show "find_one ?q (events (snd (approve_event env event_id ad approver_id w))) = Some (?f event)"
    by simp
qed

theorem approve_event_global_role_only_witness:
  "ObjectId demo_env ''p1'' = Some ''p1''
   \<and> global_role demo_env demo_world ''p1'' = Some (UserRole_value STUDENT)
   \<and> can_approve_membership demo_env demo_world demo_club ''p1'' = Inr True
   \<and> approve_event demo_env ''e1'' demo_approval ''p1'' demo_world
       = (Error ''Unauthorized to approve events'', demo_world)
   \<and> global_role demo_env demo_world ''f1'' = Some (UserRole_value FACULTY)
   \<and> find_one (\<lambda>e. e_id e = ''e1'') (events demo_world) = Some (demo_event ''e1'' ''pending'' 2 [''a1''])
   \<and> find_one (\<lambda>e. e_id e = ''e1'')
        (events (snd (approve_event demo_env ''e1'' demo_approval ''f1'' demo_world)))
       = Some ((demo_event ''e1'' ''pending'' 2 [''a1''])
                 \<lparr>e_status := ''approved'', e_approvedBy := Some ''f1'',
                  e_approvalNotes := Some '''', e_budget_approved := 0\<rparr>)"
  using approve_event_global_role_only [of demo_env "''p1''" "''p1''" demo_world "''e1''" demo_approval]
    approve_event_global_role_only [of demo_env "''f1''" "''f1''" demo_world "''e1''" demo_approval
       "''e1''" "demo_event ''e1'' ''pending'' 2 [''a1'']"]
  by (simp add: demo_env_def demo_world_def demo_club_def demo_user_def demo_member_def
        demo_event_def demo_approval_def global_role_def find_one_def
        can_approve_membership_def officer_roles_def privileged_roles_def)

subsection \<open>Registration\<close>

lemma register_for_event_success:
  assumes "ObjectId env event_id = Some eid"
    and "find_one (\<lambda>e. e_id e = eid) (events w) = Some event"
    and "\<not> (\<exists>r\<in>set (e_registeredParticipants event). str env (r_userId r) = user_id)"
    and "\<not> (e_maxParticipants event > 0
            \<and> int (length (e_registeredParticipants event)) \<ge> e_maxParticipants event)"
    and "ObjectId env user_id = Some uid"
  shows "register_for_event env event_id user_id w =
           (Ok ''Successfully registered for event'' Only_message,
            w\<lparr>events := update_one (\<lambda>e. e_id e = eid)
                 (\<lambda>e. e\<lparr>e_registeredParticipants := e_registeredParticipants e
                            @ [\<lparr>r_userId = uid, r_registeredAt = utcnow env 0\<rparr>]\<rparr>)
                 (events w)\<rparr>)"
  using assms by (simp add: register_for_event_def participant_loop_iff)

text \<open>
  What \<open>register_for_event\<close> does on an existing event, a registration counting as the
  user's when the string form of its stored identifier equals the string given: the
  conflict error, then the capacity error, otherwise one registration appended with the
  identifier built from the string and the clock's value; one below a positive capacity
  reaches the capacity.
\<close>

lemma register_for_event_by_string_form:
  assumes "ObjectId env event_id = Some eid"
    and "find_one (\<lambda>e. e_id e = eid) (events w) = Some event"
  shows "((\<exists>r\<in>set (e_registeredParticipants event). str env (r_userId r) = user_id)
          \<longrightarrow> register_for_event env event_id user_id w
                = (Error ''Already registered for this event'', w))
       \<and> (\<not> (\<exists>r\<in>set (e_registeredParticipants event). str env (r_userId r) = user_id)
            \<and> e_maxParticipants event > 0
            \<and> int (length (e_registeredParticipants event)) \<ge> e_maxParticipants event
          \<longrightarrow> register_for_event env event_id user_id w = (Error ''Event is full'', w))
       \<and> (\<not> (\<exists>r\<in>set (e_registeredParticipants event). str env (r_userId r) = user_id)
            \<and> \<not> (e_maxParticipants event > 0
                   \<and> int (length (e_registeredParticipants event)) \<ge> e_maxParticipants event)
            \<and> ObjectId env user_id = Some uid
          \<longrightarrow> fst (register_for_event env event_id user_id w)
                = Ok ''Successfully registered for event'' Only_message
              \<and> find_one (\<lambda>e. e_id e = eid) (events (snd (register_for_event env event_id user_id w)))
                = Some (event\<lparr>e_registeredParticipants := e_registeredParticipants event
                                 @ [\<lparr>r_userId = uid, r_registeredAt = utcnow env 0\<rparr>]\<rparr>))
       \<and> (\<not> (\<exists>r\<in>set (e_registeredParticipants event). str env (r_userId r) = user_id)
            \<and> e_maxParticipants event > 0
            \<and> int (length (e_registeredParticipants event)) = e_maxParticipants event - 1
            \<and> ObjectId env user_id = Some uid
          \<longrightarrow> fst (register_for_event env event_id user_id w)
                = Ok ''Successfully registered for event'' Only_message
              \<and> (\<exists>event'. find_one (\<lambda>e. e_id e = eid)
                             (events (snd (register_for_event env event_id user_id w))) = Some event'
                    \<and> int (length (e_registeredParticipants event')) = e_maxParticipants event'))"
proof (intro conjI impI)
  assume "\<exists>r\<in>set (e_registeredParticipants event). str env (r_userId r) = user_id"
  with assms show "register_for_event env event_id user_id w
                = (Error ''Already registered for this event'', w)"
    by (simp add: register_for_event_def participant_loop_iff)
next
  assume "\<not> (\<exists>r\<in>set (e_registeredParticipants event). str env (r_userId r) = user_id)
            \<and> e_maxParticipants event > 0
            \<and> int (length (e_registeredParticipants event)) \<ge> e_maxParticipants event"
  with assms show "register_for_event env event_id user_id w = (Error ''Event is full'', w)"
    by (simp add: register_for_event_def participant_loop_iff)
next
  assume a: "\<not> (\<exists>r\<in>set (e_registeredParticipants event). str env (r_userId r) = user_id)
            \<and> \<not> (e_maxParticipants event > 0
                   \<and> int (length (e_registeredParticipants event)) \<ge> e_maxParticipants event)
            \<and> ObjectId env user_id = Some uid"
  then have s: "register_for_event env event_id user_id w =
           (Ok ''Successfully registered for event'' Only_message,
            w\<lparr>events := update_one (\<lambda>e. e_id e = eid)
                 (\<lambda>e. e\<lparr>e_registeredParticipants := e_registeredParticipants e
                            @ [\<lparr>r_userId = uid, r_registeredAt = utcnow env 0\<rparr>]\<rparr>)
                 (events w)\<rparr>)"
    using assms by (intro register_for_event_success) auto
  show "fst (register_for_event env event_id user_id w)
                = Ok ''Successfully registered for event'' Only_message"
    by (simp add: s)
  show "find_one (\<lambda>e. e_id e = eid) (events (snd (register_for_event env event_id user_id w)))
                = Some (event\<lparr>e_registeredParticipants := e_registeredParticipants event
                                 @ [\<lparr>r_userId = uid, r_registeredAt = utcnow env 0\<rparr>]\<rparr>)"
    using assms(2) by (simp add: s find_one_update_one)
next
  assume a: "\<not> (\<exists>r\<in>set (e_registeredParticipants event). str env (r_userId r) = user_id)
            \<and> e_maxParticipants event > 0
            \<and> int (length (e_registeredParticipants event)) = e_maxParticipants event - 1
            \<and> ObjectId env user_id = Some uid"
  then have s: "register_for_event env event_id user_id w =
           (Ok ''Successfully registered for event'' Only_message,
            w\<lparr>events := update_one (\<lambda>e. e_id e = eid)
                 (\<lambda>e. e\<lparr>e_registeredParticipants := e_registeredParticipants e
                            @ [\<lparr>r_userId = uid, r_registeredAt = utcnow env 0\<rparr>]\<rparr>)
                 (events w)\<rparr>)"
    using assms by (intro register_for_event_success) auto
  show "fst (register_for_event env event_id user_id w)
                = Ok ''Successfully registered for event'' Only_message"
    by (simp add: s)
  show "\<exists>event'. find_one (\<lambda>e. e_id e = eid)
                             (events (snd (register_for_event env event_id user_id w))) = Some event'
                    \<and> int (length (e_registeredParticipants event')) = e_maxParticipants event'"
    using assms(2) a by (simp add: s find_one_update_one)
qed

text \<open>
  Claim C4 asks for the conflict error whenever a registration exists for the (event, user)
  pair. The check compares the string form of each stored identifier with the string
  given, while the registration it stores carries the identifier built from that string.
  With an \<open>ObjectId\<close> that reads \<open>''A1''\<close> as the identifier whose string form is
  \<open>''a1''\<close>, the user \<open>a1\<close>, who is registered for \<open>e1\<close>, registers again as \<open>''A1''\<close>:
  the call succeeds, under capacity, and the event holds two registrations of \<open>a1\<close>.
\<close>

theorem register_for_event_duplicate_registration:
  "ObjectId demo_env_fold ''A1'' = Some ''a1''
   \<and> str demo_env_fold ''a1'' = ''a1''
   \<and> e_id (hd (events demo_world)) = ''e1''
   \<and> e_maxParticipants (hd (events demo_world)) = 2
   \<and> map r_userId (e_registeredParticipants (hd (events demo_world))) = [''a1'']
   \<and> fst (register_for_event demo_env_fold ''e1'' ''A1'' demo_world)
       = Ok ''Successfully registered for event'' Only_message
   \<and> e_id (hd (events (snd (register_for_event demo_env_fold ''e1'' ''A1'' demo_world)))) = ''e1''
   \<and> map r_userId (e_registeredParticipants
         (hd (events (snd (register_for_event demo_env_fold ''e1'' ''A1'' demo_world)))))
       = [''a1'', ''a1'']"
  by code_simp

lemma erase_status_eqD:
  assumes "erase_status x = erase_status y"
  shows "e_id x = e_id y"
    and "e_registeredParticipants x = e_registeredParticipants y"
    and "e_maxParticipants x = e_maxParticipants y"
proof -
  have "e_id (erase_status x) = e_id (erase_status y)"
    and "e_registeredParticipants (erase_status x) = e_registeredParticipants (erase_status y)"
    and "e_maxParticipants (erase_status x) = e_maxParticipants (erase_status y)"
    by (simp_all only: assms)
  then show "e_id x = e_id y"
    and "e_registeredParticipants x = e_registeredParticipants y"
    and "e_maxParticipants x = e_maxParticipants y"
    by (simp_all add: erase_status_def)
qed

lemma find_one_erase_status:
  assumes "map erase_status xs = map erase_status ys"
  shows "map_option erase_status (find_one (\<lambda>e. e_id e = eid) xs)
         = map_option erase_status (find_one (\<lambda>e. e_id e = eid) ys)"
  using assms
proof (induction xs arbitrary: ys)
  case Nil
  then show ?case by (simp add: find_one_Nil)
next
  case (Cons x xs)
  then obtain y ys' where ys: "ys = y # ys'" and xy: "erase_status x = erase_status y"
    and rest: "map erase_status xs = map erase_status ys'"
    by (cases ys) auto
  from Cons.IH [OF rest] xy erase_status_eqD(1) [OF xy] show ?case
    by (simp add: ys find_one_Cons)
qed

text \<open>The reply of \<open>register_for_event\<close> as a function of the event found.\<close>

lemma register_for_event_reply:
  "fst (register_for_event env event_id user_id w) =
     (case ObjectId env event_id of
        None \<Rightarrow> Failed ''Failed to register for event: '' InvalidId
      | Some eid \<Rightarrow>
          (case map_option erase_status (find_one (\<lambda>e. e_id e = eid) (events w)) of
             None \<Rightarrow> Error ''Event not found''
           | Some event \<Rightarrow>
               if participant_loop env (e_registeredParticipants event) user_id
               then Error ''Already registered for this event''
               else if e_maxParticipants event > 0
                       \<and> int (length (e_registeredParticipants event)) \<ge> e_maxParticipants event
               then Error ''Event is full''
               else (case ObjectId env user_id of
                       None \<Rightarrow> Failed ''Failed to register for event: '' InvalidId
                     | Some uid \<Rightarrow> Ok ''Successfully registered for event'' Only_message)))"
  by (auto simp: register_for_event_def erase_status_def split: option.splits)

lemma map_update_one_unchanged:
  assumes "\<And>x. h (f x) = h x"
  shows "map h (update_one q f xs) = map h xs"
  by (induction xs) (simp_all add: assms)

lemma map_update_one_cong:
  assumes "map g xs = map g ys"
    and "\<And>x y. g x = g y \<Longrightarrow> q x = q y"
    and "\<And>x y. g x = g y \<Longrightarrow> g (f x) = g (f y)"
  shows "map g (update_one q f xs) = map g (update_one q f ys)"
  using assms(1)
proof (induction xs arbitrary: ys)
  case Nil
  then show ?case by simp
next
  case (Cons x xs)
  then obtain y ys' where ys: "ys = y # ys'" and xy: "g x = g y" and rest: "map g xs = map g ys'"
    by (cases ys) auto
  from assms(2) [OF xy] assms(3) [OF xy] Cons.IH [OF rest] xy rest show ?case
    by (simp add: ys)
qed

text \<open>The event collection after \<open>register_for_event\<close>, by its reply.\<close>

lemma register_for_event_events:
  "events (snd (register_for_event env event_id user_id w)) =
     (case ObjectId env event_id of
        None \<Rightarrow> events w
      | Some eid \<Rightarrow>
          (case ObjectId env user_id of
             None \<Rightarrow> events w
           | Some uid \<Rightarrow>
               if fst (register_for_event env event_id user_id w)
                    = Ok ''Successfully registered for event'' Only_message
               then update_one (\<lambda>e. e_id e = eid)
                      (\<lambda>e. e\<lparr>e_registeredParticipants := e_registeredParticipants e
                                @ [\<lparr>r_userId = uid, r_registeredAt = utcnow env 0\<rparr>]\<rparr>)
                      (events w)
               else events w))"
  by (simp add: register_for_event_def split: option.splits)

lemma register_for_event_statuses:
  "map e_status (events (snd (register_for_event env event_id user_id w))) = map e_status (events w)"
  by (simp add: register_for_event_events map_update_one_unchanged split: option.splits)

lemma erase_status_push:
  assumes "erase_status x = erase_status y"
  shows "erase_status (x\<lparr>e_registeredParticipants := e_registeredParticipants x @ rs\<rparr>)
       = erase_status (y\<lparr>e_registeredParticipants := e_registeredParticipants y @ rs\<rparr>)"
proof -
  have "erase_status (x\<lparr>e_registeredParticipants := e_registeredParticipants x @ rs\<rparr>)
        = (erase_status x)\<lparr>e_registeredParticipants :=
             e_registeredParticipants (erase_status x) @ rs\<rparr>" for x :: "'a event"
    by (simp add: erase_status_def)
  then show ?thesis by (simp add: assms)
qed

lemma register_for_event_erased:
  assumes "map erase_status (events w1) = map erase_status (events w2)"
  shows "fst (register_for_event env event_id user_id w1)
           = fst (register_for_event env event_id user_id w2)"
    and "map erase_status (events (snd (register_for_event env event_id user_id w1)))
           = map erase_status (events (snd (register_for_event env event_id user_id w2)))"
proof -
  have "\<And>eid. map_option erase_status (find_one (\<lambda>e. e_id e = eid) (events w1))
                 = map_option erase_status (find_one (\<lambda>e. e_id e = eid) (events w2))"
    using assms by (rule find_one_erase_status)
  then show reply: "fst (register_for_event env event_id user_id w1)
           = fst (register_for_event env event_id user_id w2)"
    by (simp only: register_for_event_reply)
  have upd: "map erase_status (update_one (\<lambda>e. e_id e = eid)
                 (\<lambda>e. e\<lparr>e_registeredParticipants := e_registeredParticipants e @ rs\<rparr>) (events w1))
           = map erase_status (update_one (\<lambda>e. e_id e = eid)
                 (\<lambda>e. e\<lparr>e_registeredParticipants := e_registeredParticipants e @ rs\<rparr>) (events w2))"
    for eid rs
    using assms
  proof (rule map_update_one_cong)
    fix x y :: "'a event"
    assume xy: "erase_status x = erase_status y"
    show "(e_id x = eid) = (e_id y = eid)"
      using erase_status_eqD(1) [OF xy] by simp
    show "erase_status (x\<lparr>e_registeredParticipants := e_registeredParticipants x @ rs\<rparr>)
        = erase_status (y\<lparr>e_registeredParticipants := e_registeredParticipants y @ rs\<rparr>)"
      using xy by (rule erase_status_push)
  qed
  show "map erase_status (events (snd (register_for_event env event_id user_id w1)))
           = map erase_status (events (snd (register_for_event env event_id user_id w2)))"
    using assms upd by (simp add: register_for_event_events reply split: option.splits)
qed

lemma not_matched_by_string:
  assumes "ObjectId env user_id = Some uid"
    and "\<forall>r\<in>set rs. r_userId r \<noteq> uid
            \<and> ObjectId env (str env (r_userId r)) = Some (r_userId r)"
  shows "\<not> (\<exists>r\<in>set rs. str env (r_userId r) = user_id)"
  using assms by auto

text \<open>
  Claim C10. \<open>register_for_event\<close> never inspects the event's status and never changes
  one. In two stores whose events differ in their statuses only, the reply is the same and
  the events afterwards again differ in their statuses only, so what is stored does not
  depend on a status either. For an existing event in any status (draft, pending, approved,
  rejected or cancelled) the call succeeds, provided no registration of the event matches
  the user, the capacity is not exceeded and the user's identifier is accepted: the result
  is the success reply and the store in which that event has one more registration, of the
  user, and nothing else differs. The last part states the same for a user whose
  identifier is not among the stored ones, when each stored identifier is the one its own
  string form builds.
\<close>

theorem register_for_event_ignores_status:
  "map e_status (events (snd (register_for_event env event_id user_id w))) = map e_status (events w)
   \<and> (map erase_status (events w1) = map erase_status (events w2)
      \<longrightarrow> fst (register_for_event env event_id user_id w1)
            = fst (register_for_event env event_id user_id w2)
          \<and> map erase_status (events (snd (register_for_event env event_id user_id w1)))
            = map erase_status (events (snd (register_for_event env event_id user_id w2))))
   \<and> (ObjectId env event_id = Some eid
        \<and> find_one (\<lambda>e. e_id e = eid) (events w) = Some event
        \<and> e_status event = EventStatus_value st
        \<and> \<not> (\<exists>r\<in>set (e_registeredParticipants event). str env (r_userId r) = user_id)
        \<and> \<not> (e_maxParticipants event > 0
               \<and> int (length (e_registeredParticipants event)) \<ge> e_maxParticipants event)
        \<and> ObjectId env user_id = Some uid
      \<longrightarrow> register_for_event env event_id user_id w
            = (Ok ''Successfully registered for event'' Only_message,
               w\<lparr>events := update_one (\<lambda>e. e_id e = eid)
                    (\<lambda>e. e\<lparr>e_registeredParticipants := e_registeredParticipants e
                              @ [\<lparr>r_userId = uid, r_registeredAt = utcnow env 0\<rparr>]\<rparr>)
                    (events w)\<rparr>)
          \<and> find_one (\<lambda>e. e_id e = eid) (events (snd (register_for_event env event_id user_id w)))
            = Some (event\<lparr>e_registeredParticipants := e_registeredParticipants event
                             @ [\<lparr>r_userId = uid, r_registeredAt = utcnow env 0\<rparr>]\<rparr>))
   \<and> (ObjectId env event_id = Some eid
        \<and> find_one (\<lambda>e. e_id e = eid) (events w) = Some event
        \<and> e_status event = EventStatus_value st
        \<and> ObjectId env user_id = Some uid
        \<and> (\<forall>r\<in>set (e_registeredParticipants event). r_userId r \<noteq> uid
               \<and> ObjectId env (str env (r_userId r)) = Some (r_userId r))
        \<and> \<not> (e_maxParticipants event > 0
               \<and> int (length (e_registeredParticipants event)) \<ge> e_maxParticipants event)
      \<longrightarrow> fst (register_for_event env event_id user_id w)
            = Ok ''Successfully registered for event'' Only_message
          \<and> find_one (\<lambda>e. e_id e = eid) (events (snd (register_for_event env event_id user_id w)))
            = Some (event\<lparr>e_registeredParticipants := e_registeredParticipants event
                             @ [\<lparr>r_userId = uid, r_registeredAt = utcnow env 0\<rparr>]\<rparr>))"
proof -
  have stored: "register_for_event env event_id user_id w
            = (Ok ''Successfully registered for event'' Only_message,
               w\<lparr>events := update_one (\<lambda>e. e_id e = eid)
                    (\<lambda>e. e\<lparr>e_registeredParticipants := e_registeredParticipants e
                              @ [\<lparr>r_userId = uid, r_registeredAt = utcnow env 0\<rparr>]\<rparr>)
                    (events w)\<rparr>)
          \<and> find_one (\<lambda>e. e_id e = eid) (events (snd (register_for_event env event_id user_id w)))
            = Some (event\<lparr>e_registeredParticipants := e_registeredParticipants event
                             @ [\<lparr>r_userId = uid, r_registeredAt = utcnow env 0\<rparr>]\<rparr>)"
    if h: "ObjectId env event_id = Some eid"
       "find_one (\<lambda>e. e_id e = eid) (events w) = Some event"
       "\<not> (\<exists>r\<in>set (e_registeredParticipants event). str env (r_userId r) = user_id)"
       "\<not> (e_maxParticipants event > 0
               \<and> int (length (e_registeredParticipants event)) \<ge> e_maxParticipants event)"
       "ObjectId env user_id = Some uid"
  proof -
    have s: "register_for_event env event_id user_id w
            = (Ok ''Successfully registered for event'' Only_message,
               w\<lparr>events := update_one (\<lambda>e. e_id e = eid)
                    (\<lambda>e. e\<lparr>e_registeredParticipants := e_registeredParticipants e
                              @ [\<lparr>r_userId = uid, r_registeredAt = utcnow env 0\<rparr>]\<rparr>)
                    (events w)\<rparr>)"
      using h by (rule register_for_event_success)
    then show ?thesis using h(2) by (simp add: find_one_update_one)
  qed
  show ?thesis
  proof (intro conjI impI)
    show "map e_status (events (snd (register_for_event env event_id user_id w)))
            = map e_status (events w)"
      by (rule register_for_event_statuses)
  next
    assume "map erase_status (events w1) = map erase_status (events w2)"
    then show "fst (register_for_event env event_id user_id w1)
            = fst (register_for_event env event_id user_id w2)"
      and "map erase_status (events (snd (register_for_event env event_id user_id w1)))
            = map erase_status (events (snd (register_for_event env event_id user_id w2)))"
      by (rule register_for_event_erased)+
  next
    assume a: "ObjectId env event_id = Some eid
        \<and> find_one (\<lambda>e. e_id e = eid) (events w) = Some event
        \<and> e_status event = EventStatus_value st
        \<and> \<not> (\<exists>r\<in>set (e_registeredParticipants event). str env (r_userId r) = user_id)
        \<and> \<not> (e_maxParticipants event > 0
               \<and> int (length (e_registeredParticipants event)) \<ge> e_maxParticipants event)
        \<and> ObjectId env user_id = Some uid"
    then have both: "register_for_event env event_id user_id w
            = (Ok ''Successfully registered for event'' Only_message,
               w\<lparr>events := update_one (\<lambda>e. e_id e = eid)
                    (\<lambda>e. e\<lparr>e_registeredParticipants := e_registeredParticipants e
                              @ [\<lparr>r_userId = uid, r_registeredAt = utcnow env 0\<rparr>]\<rparr>)
                    (events w)\<rparr>)
          \<and> find_one (\<lambda>e. e_id e = eid) (events (snd (register_for_event env event_id user_id w)))
            = Some (event\<lparr>e_registeredParticipants := e_registeredParticipants event
                             @ [\<lparr>r_userId = uid, r_registeredAt = utcnow env 0\<rparr>]\<rparr>)"
      by (intro stored) auto
    from both show "register_for_event env event_id user_id w
            = (Ok ''Successfully registered for event'' Only_message,
               w\<lparr>events := update_one (\<lambda>e. e_id e = eid)
                    (\<lambda>e. e\<lparr>e_registeredParticipants := e_registeredParticipants e
                              @ [\<lparr>r_userId = uid, r_registeredAt = utcnow env 0\<rparr>]\<rparr>)
                    (events w)\<rparr>)" ..
    from both show "find_one (\<lambda>e. e_id e = eid)
              (events (snd (register_for_event env event_id user_id w)))
            = Some (event\<lparr>e_registeredParticipants := e_registeredParticipants event
                             @ [\<lparr>r_userId = uid, r_registeredAt = utcnow env 0\<rparr>]\<rparr>)" ..
  next
    assume a: "ObjectId env event_id = Some eid
        \<and> find_one (\<lambda>e. e_id e = eid) (events w) = Some event
        \<and> e_status event = EventStatus_value st
        \<and> ObjectId env user_id = Some uid
        \<and> (\<forall>r\<in>set (e_registeredParticipants event). r_userId r \<noteq> uid
               \<and> ObjectId env (str env (r_userId r)) = Some (r_userId r))
        \<and> \<not> (e_maxParticipants event > 0
               \<and> int (length (e_registeredParticipants event)) \<ge> e_maxParticipants event)"
    then have "\<not> (\<exists>r\<in>set (e_registeredParticipants event). str env (r_userId r) = user_id)"
      by (intro not_matched_by_string [where uid = uid]) auto
    with a have both: "register_for_event env event_id user_id w
            = (Ok ''Successfully registered for event'' Only_message,
               w\<lparr>events := update_one (\<lambda>e. e_id e = eid)
                    (\<lambda>e. e\<lparr>e_registeredParticipants := e_registeredParticipants e
                              @ [\<lparr>r_userId = uid, r_registeredAt = utcnow env 0\<rparr>]\<rparr>)
                    (events w)\<rparr>)
          \<and> find_one (\<lambda>e. e_id e = eid) (events (snd (register_for_event env event_id user_id w)))
            = Some (event\<lparr>e_registeredParticipants := e_registeredParticipants event
                             @ [\<lparr>r_userId = uid, r_registeredAt = utcnow env 0\<rparr>]\<rparr>)"
      by (intro stored) auto
    from both show "fst (register_for_event env event_id user_id w)
            = Ok ''Successfully registered for event'' Only_message"
      by simp
    from both show "find_one (\<lambda>e. e_id e = eid)
              (events (snd (register_for_event env event_id user_id w)))
            = Some (event\<lparr>e_registeredParticipants := e_registeredParticipants event
                             @ [\<lparr>r_userId = uid, r_registeredAt = utcnow env 0\<rparr>]\<rparr>)" ..
  qed
qed

theorem register_for_event_ignores_status_witness:
  "map erase_status (events demo_world)
     = map erase_status (events (demo_world\<lparr>events :=
         [demo_event ''e1'' ''pending'' 2 [''a1''],
          demo_event ''e2'' ''draft'' 0 [],
          demo_event ''e3'' ''rejected'' 1 [''a1'']]\<rparr>))
   \<and> fst (register_for_event demo_env ''e2'' ''b1'' (demo_world\<lparr>events :=
         [demo_event ''e1'' ''pending'' 2 [''a1''],
          demo_event ''e2'' ''draft'' 0 [],
          demo_event ''e3'' ''rejected'' 1 [''a1'']]\<rparr>))
       = Ok ''Successfully registered for event'' Only_message
   \<and> map erase_status (events (snd (register_for_event demo_env ''e2'' ''b1'' (demo_world\<lparr>events :=
         [demo_event ''e1'' ''pending'' 2 [''a1''],
          demo_event ''e2'' ''draft'' 0 [],
          demo_event ''e3'' ''rejected'' 1 [''a1'']]\<rparr>))))
       = map erase_status (events (snd (register_for_event demo_env ''e2'' ''b1'' demo_world)))
   \<and> find_one (\<lambda>e. e_id e = ''e2'') (events demo_world) = Some (demo_event ''e2'' ''cancelled'' 0 [])
   \<and> e_status (demo_event ''e2'' ''cancelled'' 0 []) = EventStatus_value EventStatus.CANCELLED
   \<and> find_one (\<lambda>e. e_id e = ''e2'')
         (events (snd (register_for_event demo_env ''e2'' ''b1'' demo_world)))
       = Some ((demo_event ''e2'' ''cancelled'' 0 [])
                 \<lparr>e_registeredParticipants := [\<lparr>r_userId = ''b1'', r_registeredAt = 1000\<rparr>]\<rparr>)
   \<and> map e_status (events (snd (register_for_event demo_env ''e2'' ''b1'' demo_world)))
       = [''pending'', ''cancelled'', ''approved'']
   \<and> find_one (\<lambda>e. e_id e = ''e1'') (events demo_world) = Some (demo_event ''e1'' ''pending'' 2 [''a1''])
   \<and> find_one (\<lambda>e. e_id e = ''e1'')
         (events (snd (register_for_event demo_env ''e1'' ''b1'' demo_world)))
       = Some ((demo_event ''e1'' ''pending'' 2 [''a1''])
                 \<lparr>e_registeredParticipants :=
                    [\<lparr>r_userId = ''a1'', r_registeredAt = 7\<rparr>,
                     \<lparr>r_userId = ''b1'', r_registeredAt = 1000\<rparr>]\<rparr>)"
  using register_for_event_ignores_status
          [where env = demo_env and event_id = "''e2''" and user_id = "''b1''" and w = demo_world
             and ?w1.0 = "demo_world\<lparr>events :=
                 [demo_event ''e1'' ''pending'' 2 [''a1''],
                  demo_event ''e2'' ''draft'' 0 [],
                  demo_event ''e3'' ''rejected'' 1 [''a1'']]\<rparr>"
             and ?w2.0 = demo_world and eid = "''e2''"
             and event = "demo_event ''e2'' ''cancelled'' 0 []"
             and st = EventStatus.CANCELLED and uid = "''b1''"]
    register_for_event_ignores_status
          [where env = demo_env and event_id = "''e1''" and user_id = "''b1''" and w = demo_world
             and eid = "''e1''" and event = "demo_event ''e1'' ''pending'' 2 [''a1'']"
             and st = EventStatus.PENDING and uid = "''b1''"]
  by (simp add: demo_env_def demo_world_def demo_event_def find_one_def erase_status_def
        register_for_event_def)

subsection \<open>Membership lifecycle\<close>

text \<open>The club collection after \<open>join_club\<close> has passed its checks.\<close>

lemma join_club_clubs:
  assumes "ObjectId env club_id = Some cid"
    and "find_one (\<lambda>c. c_id c = cid) (clubs w) = Some club"
    and "c_isActive club"
    and "memberships_of env club user_id = []"
    and "ObjectId env user_id = Some uid"
  shows "clubs (snd (join_club env club_id user_id w)) =
           update_one (\<lambda>c. c_id c = cid)
             (\<lambda>c. c\<lparr>c_members := c_members c @
                      [\<lparr>m_userId = uid, m_role = ''member'',
                        m_status = MembershipStatus_value MembershipStatus.PENDING,
                        m_joinedAt = utcnow env 0\<rparr>]\<rparr>) (clubs w)"
  using assms
  by (simp add: join_club_def member_loop_memberships_of Let_def clubs_publish_notification
        split: option.splits)

lemma join_club_Ok_not_member:
  assumes "fst (join_club env club_id user_id w) = Ok msg p"
    and "ObjectId env club_id = Some cid"
    and "find_one (\<lambda>c. c_id c = cid) (clubs w) = Some club"
  shows "memberships_of env club user_id = []"
  using assms
  by (auto simp: join_club_def member_loop_memberships_of Let_def
        split: option.splits if_splits)

lemma join_club_already_member:
  assumes "ObjectId env club_id = Some cid"
    and "find_one (\<lambda>c. c_id c = cid) (clubs w) = Some club"
    and "c_isActive club"
    and "memberships_of env club user_id \<noteq> []"
  shows "join_club env club_id user_id w = (Error ''Already a member of this club'', w)"
  using assms by (simp add: join_club_def member_loop_memberships_of)

text \<open>
  What \<open>join_club\<close> does on an existing, active club, a membership counting as the
  user's when the string form of its stored identifier equals the string given: the
  conflict error when there is one, otherwise one pending membership appended with the
  identifier built from the string. A second join after a successful one is refused when
  the string form of that identifier is the string it was built from.
\<close>

lemma join_club_by_string_form:
  assumes "ObjectId env club_id = Some cid"
    and "find_one (\<lambda>c. c_id c = cid) (clubs w) = Some club"
    and "c_isActive club"
  shows "(memberships_of env club user_id \<noteq> []
          \<longrightarrow> join_club env club_id user_id w = (Error ''Already a member of this club'', w))
       \<and> (memberships_of env club user_id = [] \<and> ObjectId env user_id = Some uid
          \<longrightarrow> find_one (\<lambda>c. c_id c = cid) (clubs (snd (join_club env club_id user_id w)))
                = Some (club\<lparr>c_members := c_members club @
                          [\<lparr>m_userId = uid, m_role = ''member'',
                            m_status = MembershipStatus_value MembershipStatus.PENDING,
                            m_joinedAt = utcnow env 0\<rparr>]\<rparr>)
              \<and> (find_one (\<lambda>u. u_id u = uid) (users w) \<noteq> None
                  \<longrightarrow> fst (join_club env club_id user_id w)
                        = Ok ''Membership request sent successfully'' Only_message))
       \<and> (fst (join_club env club_id user_id w)
             = Ok ''Membership request sent successfully'' Only_message
            \<and> ObjectId env user_id = Some uid \<and> str env uid = user_id
            \<and> ObjectId env' = ObjectId env \<and> str env' = str env
          \<longrightarrow> join_club env' club_id user_id (snd (join_club env club_id user_id w))
                = (Error ''Already a member of this club'', snd (join_club env club_id user_id w))
              \<and> (\<exists>club'. find_one (\<lambda>c. c_id c = cid)
                             (clubs (snd (join_club env club_id user_id w))) = Some club'
                    \<and> length (memberships_of env club' user_id) = 1))"
proof (intro conjI impI)
  assume "memberships_of env club user_id \<noteq> []"
  with assms show "join_club env club_id user_id w = (Error ''Already a member of this club'', w)"
    by (intro join_club_already_member)
next
  let ?m = "\<lparr>m_userId = uid, m_role = ''member'',
             m_status = MembershipStatus_value MembershipStatus.PENDING,
             m_joinedAt = utcnow env 0\<rparr>"
  assume a: "memberships_of env club user_id = [] \<and> ObjectId env user_id = Some uid"
  then show "find_one (\<lambda>c. c_id c = cid) (clubs (snd (join_club env club_id user_id w)))
                = Some (club\<lparr>c_members := c_members club @ [?m]\<rparr>)"
    using assms by (simp add: join_club_clubs find_one_update_one)
next
  assume a: "memberships_of env club user_id = [] \<and> ObjectId env user_id = Some uid"
    and b: "find_one (\<lambda>u. u_id u = uid) (users w) \<noteq> None"
  show "fst (join_club env club_id user_id w)
          = Ok ''Membership request sent successfully'' Only_message"
    using a b assms
    by (auto simp: join_club_def member_loop_memberships_of Let_def find_one_update_one
          split: option.splits)
next
  let ?w' = "snd (join_club env club_id user_id w)"
  let ?m = "\<lparr>m_userId = uid, m_role = ''member'',
             m_status = MembershipStatus_value MembershipStatus.PENDING,
             m_joinedAt = utcnow env 0\<rparr>"
  let ?club' = "club\<lparr>c_members := c_members club @ [?m]\<rparr>"
  assume a: "fst (join_club env club_id user_id w)
             = Ok ''Membership request sent successfully'' Only_message
            \<and> ObjectId env user_id = Some uid \<and> str env uid = user_id
            \<and> ObjectId env' = ObjectId env \<and> str env' = str env"
  then have none: "memberships_of env club user_id = []"
    using assms(1,2) by (intro join_club_Ok_not_member) auto
  have found: "find_one (\<lambda>c. c_id c = cid) (clubs ?w') = Some ?club'"
    using a none assms by (simp add: join_club_clubs find_one_update_one)
  have one: "memberships_of env ?club' user_id = [?m]"
    using a none by (simp add: memberships_of_def)
  then have "memberships_of env' ?club' user_id \<noteq> []"
    using a by (simp add: memberships_of_def)
  moreover have "ObjectId env' club_id = Some cid" "c_isActive ?club'"
    using a assms(1,3) by simp_all
  ultimately show "join_club env' club_id user_id ?w' = (Error ''Already a member of this club'', ?w')"
    using found by (intro join_club_already_member [where club = ?club'])
  show "\<exists>club'. find_one (\<lambda>c. c_id c = cid) (clubs ?w') = Some club'
                    \<and> length (memberships_of env club' user_id) = 1"
    using found one by simp
qed

text \<open>
  Claim C5 asks that a join fail with the conflict error whenever a membership of the user
  exists in the club, and that a second join right after a successful one fail and leave
  exactly one membership of the user. The check compares the string form of each stored
  identifier with the string given, while the membership it stores carries the identifier
  built from that string. With an \<open>ObjectId\<close> that reads \<open>''F1''\<close> as the identifier whose
  string form is \<open>''f1''\<close>, the user \<open>f1\<close> joins the club \<open>c1\<close> as \<open>''F1''\<close> twice: both
  calls succeed and the club holds two memberships of \<open>f1\<close>. Likewise \<open>a1\<close>, an active
  member, joins again as \<open>''A1''\<close>.
\<close>

theorem join_club_duplicate_membership:
  "ObjectId demo_env_fold ''F1'' = Some ''f1''
   \<and> str demo_env_fold ''f1'' = ''f1''
   \<and> c_id (hd (clubs demo_world)) = ''c1''
   \<and> map m_userId (c_members (hd (clubs demo_world))) = [''p1'', ''a1'', ''b1'', ''r1'']
   \<and> fst (join_club demo_env_fold ''c1'' ''F1'' demo_world)
       = Ok ''Membership request sent successfully'' Only_message
   \<and> fst (join_club demo_env_fold ''c1'' ''F1''
            (snd (join_club demo_env_fold ''c1'' ''F1'' demo_world)))
       = Ok ''Membership request sent successfully'' Only_message
   \<and> map m_userId (c_members (hd (clubs
         (snd (join_club demo_env_fold ''c1'' ''F1''
            (snd (join_club demo_env_fold ''c1'' ''F1'' demo_world)))))))
       = [''p1'', ''a1'', ''b1'', ''r1'', ''f1'', ''f1'']
   \<and> ObjectId demo_env_fold ''A1'' = Some ''a1''
   \<and> fst (join_club demo_env_fold ''c1'' ''A1'' demo_world)
       = Ok ''Membership request sent successfully'' Only_message
   \<and> map m_userId (c_members (hd (clubs (snd (join_club demo_env_fold ''c1'' ''A1'' demo_world)))))
       = [''p1'', ''a1'', ''b1'', ''r1'', ''a1'']"
  by code_simp

text \<open>\<open>approve_membership\<close> once the club is found and the approver is authorized.\<close>

lemma approve_membership_not_found:
  assumes "ObjectId env club_id = Some cid"
    and "find_one (\<lambda>c. c_id c = cid) (clubs w) = Some club"
    and "can_approve_membership env w club approver_id = Inr True"
    and "memberships_of env club member_id = []"
  shows "approve_membership env club_id member_id approver_id w = (Error ''Member not found'', w)"
  using assms
  by (simp add: approve_membership_def approve_loop_not_found member_loop_memberships_of)

lemma approve_membership_first:
  assumes "ObjectId env club_id = Some cid"
    and "find_one (\<lambda>c. c_id c = cid) (clubs w) = Some club"
    and "can_approve_membership env w club approver_id = Inr True"
    and "c_members club = pre @ m # post"
    and "\<forall>x\<in>set pre. str env (m_userId x) \<noteq> member_id"
    and "str env (m_userId m) = member_id"
  shows "approve_membership env club_id member_id approver_id w =
           (Ok ''Membership approved successfully'' Only_message,
            w\<lparr>clubs := replace_one (\<lambda>c. c_id c = cid)
                 (club\<lparr>c_members :=
                    pre @ m\<lparr>m_status := MembershipStatus_value MembershipStatus.ACTIVE\<rparr> # post\<rparr>)
                 (clubs w)\<rparr>)"
  using assms by (simp add: approve_membership_def approve_loop_first)

lemma approve_membership_noop:
  assumes "ObjectId env club_id = Some cid"
    and "find_one (\<lambda>c. c_id c = cid) (clubs w) = Some club"
    and "can_approve_membership env w club approver_id = Inr True"
    and "c_members club = pre @ m # post"
    and "\<forall>x\<in>set pre. str env (m_userId x) \<noteq> member_id"
    and "str env (m_userId m) = member_id"
    and "m_status m = MembershipStatus_value MembershipStatus.ACTIVE"
  shows "approve_membership env club_id member_id approver_id w =
           (Ok ''Membership approved successfully'' Only_message, w)"
proof -
  have "m\<lparr>m_status := MembershipStatus_value MembershipStatus.ACTIVE\<rparr> = m"
    using assms(7) by (cases m) simp
  then have "club\<lparr>c_members :=
                pre @ m\<lparr>m_status := MembershipStatus_value MembershipStatus.ACTIVE\<rparr> # post\<rparr> = club"
    using assms(4) by (cases club) simp
  then show ?thesis
    using approve_membership_first [OF assms(1-6)] assms(2)
    by (simp add: replace_one_same)
qed

lemma officer_loop_activate:
  assumes "officer_loop env (pre @ m # post) approver_id"
  shows "officer_loop env
           (pre @ m\<lparr>m_status := MembershipStatus_value MembershipStatus.ACTIVE\<rparr> # post) approver_id"
  using assms by (auto simp: officer_loop_iff)

lemma can_approve_membership_activate:
  assumes "can_approve_membership env w club approver_id = Inr True"
    and "c_members club = pre @ m # post"
    and "users w' = users w"
  shows "can_approve_membership env w'
           (club\<lparr>c_members :=
              pre @ m\<lparr>m_status := MembershipStatus_value MembershipStatus.ACTIVE\<rparr> # post\<rparr>)
           approver_id = Inr True"
  using assms officer_loop_activate [of env pre m post approver_id]
  by (auto simp: can_approve_membership_def split: option.splits if_splits)

lemma approve_membership_Ok_first:
  assumes "fst (approve_membership env club_id member_id approver_id w) = Ok msg p"
    and "ObjectId env club_id = Some cid"
    and "find_one (\<lambda>c. c_id c = cid) (clubs w) = Some club"
  shows "can_approve_membership env w club approver_id = Inr True
       \<and> (\<exists>pre m post. c_members club = pre @ m # post
              \<and> (\<forall>x\<in>set pre. str env (m_userId x) \<noteq> member_id)
              \<and> str env (m_userId m) = member_id)"
proof -
  have auth: "can_approve_membership env w club approver_id = Inr True"
    using assms
    by (auto simp: approve_membership_def split: option.splits sum.splits if_splits)
  have "member_loop env (c_members club) member_id"
    using assms approve_loop_fst [of env "c_members club" member_id]
    by (auto simp: approve_membership_def case_prod_beta
          split: option.splits sum.splits if_splits)
  then have "\<exists>x\<in>set (c_members club). str env (m_userId x) = member_id"
    by (simp add: member_loop_iff)
  then have "\<exists>pre m post. c_members club = pre @ m # post
              \<and> str env (m_userId m) = member_id
              \<and> (\<forall>x\<in>set pre. str env (m_userId x) \<noteq> member_id)"
    by (rule split_list_first_prop)
  with auth show ?thesis by blast
qed

text \<open>
  Claim C6. \<open>approve_membership\<close> by an authorized actor on an existing club. When the
  club holds no membership of the named user it returns the not-found error ``Member not
  found'' and changes nothing. When the first membership of the named user is pending, it
  succeeds and the stored club afterwards has that membership with status active and
  everything else as before. When that membership is already active, the call succeeds and
  the state is exactly what it was. A second approve after a successful one succeeds and
  leaves the state as the first left it.
\<close>

theorem approve_membership_outcomes:
  assumes "ObjectId env club_id = Some cid"
    and "find_one (\<lambda>c. c_id c = cid) (clubs w) = Some club"
    and "can_approve_membership env w club approver_id = Inr True"
  shows "(memberships_of env club member_id = []
          \<longrightarrow> approve_membership env club_id member_id approver_id w
                = (Error ''Member not found'', w))
       \<and> (c_members club = pre @ m # post
            \<and> (\<forall>x\<in>set pre. str env (m_userId x) \<noteq> member_id)
            \<and> str env (m_userId m) = member_id
            \<and> m_status m = MembershipStatus_value MembershipStatus.PENDING
          \<longrightarrow> fst (approve_membership env club_id member_id approver_id w)
                = Ok ''Membership approved successfully'' Only_message
              \<and> find_one (\<lambda>c. c_id c = cid)
                   (clubs (snd (approve_membership env club_id member_id approver_id w)))
                = Some (club\<lparr>c_members :=
                    pre @ m\<lparr>m_status := MembershipStatus_value MembershipStatus.ACTIVE\<rparr> # post\<rparr>))
       \<and> (c_members club = pre @ m # post
            \<and> (\<forall>x\<in>set pre. str env (m_userId x) \<noteq> member_id)
            \<and> str env (m_userId m) = member_id
            \<and> m_status m = MembershipStatus_value MembershipStatus.ACTIVE
          \<longrightarrow> approve_membership env club_id member_id approver_id w
                = (Ok ''Membership approved successfully'' Only_message, w))
       \<and> (fst (approve_membership env club_id member_id approver_id w)
             = Ok ''Membership approved successfully'' Only_message
          \<longrightarrow> approve_membership env club_id member_id approver_id
                 (snd (approve_membership env club_id member_id approver_id w))
                = (Ok ''Membership approved successfully'' Only_message,
                   snd (approve_membership env club_id member_id approver_id w)))"
proof (intro conjI impI)
  assume "memberships_of env club member_id = []"
  with assms show "approve_membership env club_id member_id approver_id w
                = (Error ''Member not found'', w)"
    by (intro approve_membership_not_found)
next
  assume a: "c_members club = pre @ m # post
            \<and> (\<forall>x\<in>set pre. str env (m_userId x) \<noteq> member_id)
            \<and> str env (m_userId m) = member_id
            \<and> m_status m = MembershipStatus_value MembershipStatus.PENDING"
  then have s: "approve_membership env club_id member_id approver_id w =
           (Ok ''Membership approved successfully'' Only_message,
            w\<lparr>clubs := replace_one (\<lambda>c. c_id c = cid)
                 (club\<lparr>c_members :=
                    pre @ m\<lparr>m_status := MembershipStatus_value MembershipStatus.ACTIVE\<rparr> # post\<rparr>)
                 (clubs w)\<rparr>)"
    using assms by (intro approve_membership_first) auto
  show "fst (approve_membership env club_id member_id approver_id w)
                = Ok ''Membership approved successfully'' Only_message"
    by (simp add: s)
  have "c_id club = cid" using assms(2) by (rule find_one_Some_holds)
  then show "find_one (\<lambda>c. c_id c = cid)
                   (clubs (snd (approve_membership env club_id member_id approver_id w)))
                = Some (club\<lparr>c_members :=
                    pre @ m\<lparr>m_status := MembershipStatus_value MembershipStatus.ACTIVE\<rparr> # post\<rparr>)"
    using assms(2) by (simp add: s find_one_replace_one)
next
  assume "c_members club = pre @ m # post
            \<and> (\<forall>x\<in>set pre. str env (m_userId x) \<noteq> member_id)
            \<and> str env (m_userId m) = member_id
            \<and> m_status m = MembershipStatus_value MembershipStatus.ACTIVE"
  then show "approve_membership env club_id member_id approver_id w
                = (Ok ''Membership approved successfully'' Only_message, w)"
    using assms by (intro approve_membership_noop) auto
next
  let ?w' = "snd (approve_membership env club_id member_id approver_id w)"
  assume ok: "fst (approve_membership env club_id member_id approver_id w)
             = Ok ''Membership approved successfully'' Only_message"
  from approve_membership_Ok_first [OF ok assms(1,2)]
  obtain pre m post where dec: "c_members club = pre @ m # post"
    and pre: "\<forall>x\<in>set pre. str env (m_userId x) \<noteq> member_id"
    and m: "str env (m_userId m) = member_id"
    by blast
  let ?m' = "m\<lparr>m_status := MembershipStatus_value MembershipStatus.ACTIVE\<rparr>"
  let ?club' = "club\<lparr>c_members := pre @ ?m' # post\<rparr>"
  have s: "approve_membership env club_id member_id approver_id w =
           (Ok ''Membership approved successfully'' Only_message,
            w\<lparr>clubs := replace_one (\<lambda>c. c_id c = cid) ?club' (clubs w)\<rparr>)"
    using assms dec pre m by (intro approve_membership_first)
  have cid: "c_id club = cid" using assms(2) by (rule find_one_Some_holds)
  have found: "find_one (\<lambda>c. c_id c = cid) (clubs ?w') = Some ?club'"
    using assms(2) cid by (simp add: s find_one_replace_one)
  have auth: "can_approve_membership env ?w' ?club' approver_id = Inr True"
    using assms(3) dec by (intro can_approve_membership_activate) (simp_all add: s)
  show "approve_membership env club_id member_id approver_id ?w'
          = (Ok ''Membership approved successfully'' Only_message, ?w')"
    using assms(1) found auth
  proof (rule approve_membership_noop)
    show "c_members ?club' = pre @ ?m' # post" by simp
    show "\<forall>x\<in>set pre. str env (m_userId x) \<noteq> member_id" by (rule pre)
    show "str env (m_userId ?m') = member_id" using m by simp
    show "m_status ?m' = MembershipStatus_value MembershipStatus.ACTIVE" by simp
  qed
qed

theorem approve_membership_outcomes_witness:
  "ObjectId demo_env ''c1'' = Some ''c1''
   \<and> find_one (\<lambda>c. c_id c = ''c1'') (clubs demo_world) = Some demo_club
   \<and> can_approve_membership demo_env demo_world demo_club ''p1'' = Inr True
   \<and> memberships_of demo_env demo_club ''z1'' = []
   \<and> approve_membership demo_env ''c1'' ''z1'' ''p1'' demo_world = (Error ''Member not found'', demo_world)
   \<and> c_members demo_club = [demo_member ''p1'' ''president'' ''active'',
                             demo_member ''a1'' ''member'' ''active'']
                            @ demo_member ''b1'' ''member'' ''pending''
                            # [demo_member ''r1'' ''member'' ''rejected'']
   \<and> fst (approve_membership demo_env ''c1'' ''b1'' ''p1'' demo_world)
       = Ok ''Membership approved successfully'' Only_message
   \<and> map_option (\<lambda>c. map m_status (c_members c))
        (find_one (\<lambda>c. c_id c = ''c1'')
           (clubs (snd (approve_membership demo_env ''c1'' ''b1'' ''p1'' demo_world))))
       = Some [''active'', ''active'', ''active'', ''rejected'']
   \<and> approve_membership demo_env ''c1'' ''a1'' ''p1'' demo_world
       = (Ok ''Membership approved successfully'' Only_message, demo_world)
   \<and> approve_membership demo_env ''c1'' ''b1'' ''p1''
        (snd (approve_membership demo_env ''c1'' ''b1'' ''p1'' demo_world))
       = (Ok ''Membership approved successfully'' Only_message,
          snd (approve_membership demo_env ''c1'' ''b1'' ''p1'' demo_world))"
  using approve_membership_outcomes [of demo_env "''c1''" "''c1''" demo_world demo_club "''p1''" "''z1''"]
    approve_membership_outcomes [of demo_env "''c1''" "''c1''" demo_world demo_club "''p1''" "''b1''"
      "[demo_member ''p1'' ''president'' ''active'', demo_member ''a1'' ''member'' ''active'']"
      "demo_member ''b1'' ''member'' ''pending''" "[demo_member ''r1'' ''member'' ''rejected'']"]
    approve_membership_outcomes [of demo_env "''c1''" "''c1''" demo_world demo_club "''p1''" "''a1''"
      "[demo_member ''p1'' ''president'' ''active'']"
      "demo_member ''a1'' ''member'' ''active''"
      "[demo_member ''b1'' ''member'' ''pending'', demo_member ''r1'' ''member'' ''rejected'']"]
  by (simp add: demo_env_def demo_world_def demo_club_def demo_user_def
        demo_member_def memberships_of_def find_one_def can_approve_membership_def
        officer_roles_def privileged_roles_def)

subsection \<open>Membership status transitions\<close>

lemma member_step_refl: "member_step m m"
  by (simp add: member_step_def)

lemma club_step_refl: "club_step c c"
  by (simp add: club_step_def new_members_pending_def list_all2_same member_step_refl)

lemma club_kept_refl: "club_kept c c"
  by (simp add: club_kept_def new_members_pending_def)

lemma clubs_rel_refl: "(\<And>c. R c c) \<Longrightarrow> clubs_rel R cs cs"
  by (simp add: clubs_rel_def list_all2_same)

lemma clubs_rel_insert_one:
  "(\<And>c. R c c) \<Longrightarrow> c_members d = [] \<Longrightarrow> clubs_rel R cs (insert_one d cs)"
  by (simp add: clubs_rel_def insert_one_def list_all2_same)

lemma list_all2_update_one:
  assumes "\<And>x. R x x" and "\<And>x. x \<in> set xs \<Longrightarrow> q x \<Longrightarrow> R x (f x)"
  shows "list_all2 R xs (update_one q f xs)"
  using assms(2) by (induction xs) (simp_all add: assms(1) list_all2_same)

lemma clubs_rel_update_one:
  assumes "\<And>x. R x x" and "\<And>x. x \<in> set cs \<Longrightarrow> q x \<Longrightarrow> R x (f x)"
  shows "clubs_rel R cs (update_one q f cs)"
  using list_all2_update_one [of R cs q f] assms
  by (simp add: clubs_rel_def length_update_one)

lemma clubs_rel_replace_one:
  assumes "\<And>x. R x x" and "find_one q cs = Some c" and "R c d"
  shows "clubs_rel R cs (replace_one q d cs)"
proof -
  have "list_all2 R cs (update_one q (\<lambda>_. d) cs)"
    using assms(2,3)
    by (induction cs) (auto simp: find_one_Cons find_one_Nil assms(1) list_all2_same split: if_splits)
  then show ?thesis
    by (simp add: clubs_rel_def replace_one_def length_update_one)
qed

lemma approve_loop_steps:
  "list_all2 member_step ms (snd (approve_loop env ms member_id))"
  by (induction ms) (simp_all add: case_prod_beta member_step_def list_all2_same)

lemma length_approve_loop: "length (snd (approve_loop env ms member_id)) = length ms"
  by (induction ms) (simp_all add: case_prod_beta)

lemma club_step_approve_loop:
  "club_step club (club\<lparr>c_members := snd (approve_loop env (c_members club) member_id)\<rparr>)"
  by (simp add: club_step_def new_members_pending_def length_approve_loop approve_loop_steps)

lemma club_step_push_member:
  "m_status m = MembershipStatus_value MembershipStatus.PENDING \<Longrightarrow>
   club_step c (c\<lparr>c_members := c_members c @ [m]\<rparr>)"
  by (simp add: club_step_def new_members_pending_def list_all2_same member_step_refl)

lemma club_kept_push_member:
  "m_status m = MembershipStatus_value MembershipStatus.PENDING \<Longrightarrow>
   club_kept c (c\<lparr>c_members := c_members c @ [m]\<rparr>)"
  by (simp add: club_kept_def new_members_pending_def)

lemma club_step_push_event: "club_step c (c\<lparr>c_events := es\<rparr>)"
  by (simp add: club_step_def new_members_pending_def list_all2_same member_step_refl)

lemma club_kept_push_event: "club_kept c (c\<lparr>c_events := es\<rparr>)"
  by (simp add: club_kept_def new_members_pending_def)

lemmas clubs_rel_intros =
  clubs_rel_refl clubs_rel_insert_one clubs_rel_update_one
  club_step_refl club_kept_refl club_step_push_member club_kept_push_member
  club_step_push_event club_kept_push_event

lemma register_user_clubs: "clubs (snd (register_user env ud w)) = clubs w"
  by (simp add: register_user_def Let_def)

lemma register_for_event_clubs: "clubs (snd (register_for_event env event_id user_id w)) = clubs w"
  by (simp add: register_for_event_def Let_def split: option.splits)

lemma approve_event_clubs: "clubs (snd (approve_event env event_id ad approver_id w)) = clubs w"
  by (simp add: approve_event_def Let_def clubs_publish_notification split: option.splits)

lemma create_club_clubs_rel:
  assumes "\<And>c. R c c"
  shows "clubs_rel R (clubs w) (clubs (snd (create_club env cd creator_id w)))"
  by (simp add: create_club_def Let_def clubs_publish_notification assms
        clubs_rel_refl clubs_rel_insert_one split: option.splits)

lemma join_club_clubs_step:
  "clubs_rel club_step (clubs w) (clubs (snd (join_club env club_id user_id w)))"
  by (simp add: join_club_def Let_def clubs_publish_notification clubs_rel_intros
        split: option.splits)

lemma join_club_clubs_kept:
  "clubs_rel club_kept (clubs w) (clubs (snd (join_club env club_id user_id w)))"
  by (simp add: join_club_def Let_def clubs_publish_notification clubs_rel_intros
        split: option.splits)

lemma create_event_clubs_step:
  "clubs_rel club_step (clubs w) (clubs (snd (create_event env ed creator_id w)))"
  by (simp add: create_event_def Let_def clubs_publish_notification clubs_rel_intros
        split: option.splits sum.splits)

lemma create_event_clubs_kept:
  "clubs_rel club_kept (clubs w) (clubs (snd (create_event env ed creator_id w)))"
  by (simp add: create_event_def Let_def clubs_publish_notification clubs_rel_intros
        split: option.splits sum.splits)

lemma approve_membership_clubs_step:
  "clubs_rel club_step (clubs w)
     (clubs (snd (approve_membership env club_id member_id approver_id w)))"
  by (auto simp: approve_membership_def Let_def case_prod_beta clubs_rel_refl club_step_refl
        club_step_approve_loop
        intro!: clubs_rel_replace_one [where R = club_step]
        split: option.splits sum.splits)

text \<open>
  Claim C3 says that no operation changes a rejected membership to active. In the example
  store the club \<open>c1\<close> holds a rejected membership of \<open>r1\<close>; the faculty member \<open>f1\<close>
  approves it, the call succeeds, and the stored membership is active.
\<close>

theorem rejected_membership_approved_counterexample:
  "c_id (hd (clubs demo_world)) = ''c1''
   \<and> c_members (hd (clubs demo_world)) ! 3 =
       \<lparr>m_userId = ''r1'', m_role = ''member'',
        m_status = MembershipStatus_value MembershipStatus.REJECTED, m_joinedAt = 5\<rparr>
   \<and> fst (approve_membership demo_env ''c1'' ''r1'' ''f1'' demo_world)
       = Ok ''Membership approved successfully'' Only_message
   \<and> c_id (hd (clubs (snd (approve_membership demo_env ''c1'' ''r1'' ''f1'' demo_world)))) = ''c1''
   \<and> c_members (hd (clubs (snd (approve_membership demo_env ''c1'' ''r1'' ''f1'' demo_world)))) ! 3 =
       \<lparr>m_userId = ''r1'', m_role = ''member'',
        m_status = MembershipStatus_value MembershipStatus.ACTIVE, m_joinedAt = 5\<rparr>"
  by (simp add: demo_env_def demo_world_def demo_club_def demo_user_def demo_member_def
        find_one_def approve_membership_def can_approve_membership_def privileged_roles_def
        replace_one_def)

text \<open>
  Claim C3, as the code has it. Whatever the call, every membership that a stored club held
  before is afterwards in the same position and either unchanged or changed only in that
  its status is active; every membership added is pending and every club added has no
  membership, so no status is ever set to rejected. A call other than
  \<open>approve_membership\<close> leaves every existing membership unchanged. An authorized
  \<open>approve_membership\<close> sets the first membership of the named user to active whatever
  its status was: pending, active or rejected.
\<close>

theorem membership_status_transitions:
  "clubs_rel club_step (clubs w) (clubs (snd (run env c w)))
   \<and> ((\<forall>club_id member_id approver_id. c \<noteq> Approve_membership club_id member_id approver_id)
        \<longrightarrow> clubs_rel club_kept (clubs w) (clubs (snd (run env c w))))
   \<and> (ObjectId env club_id = Some cid
        \<and> find_one (\<lambda>c. c_id c = cid) (clubs w) = Some club
        \<and> can_approve_membership env w club approver_id = Inr True
        \<and> c_members club = pre @ m # post
        \<and> (\<forall>x\<in>set pre. str env (m_userId x) \<noteq> member_id)
        \<and> str env (m_userId m) = member_id
      \<longrightarrow> find_one (\<lambda>c. c_id c = cid)
             (clubs (snd (run env (Approve_membership club_id member_id approver_id) w)))
            = Some (club\<lparr>c_members :=
                pre @ m\<lparr>m_status := MembershipStatus_value MembershipStatus.ACTIVE\<rparr> # post\<rparr>))"
proof (intro conjI impI)
  show "clubs_rel club_step (clubs w) (clubs (snd (run env c w)))"
    by (cases c)
      (simp_all add: register_user_clubs register_for_event_clubs approve_event_clubs
         create_club_clubs_rel join_club_clubs_step create_event_clubs_step
         approve_membership_clubs_step clubs_rel_refl club_step_refl)
next
  assume "\<forall>club_id member_id approver_id. c \<noteq> Approve_membership club_id member_id approver_id"
  then show "clubs_rel club_kept (clubs w) (clubs (snd (run env c w)))"
    by (cases c)
      (simp_all add: register_user_clubs register_for_event_clubs approve_event_clubs
         create_club_clubs_rel join_club_clubs_kept create_event_clubs_kept
         clubs_rel_refl club_kept_refl)
next
  assume a: "ObjectId env club_id = Some cid
        \<and> find_one (\<lambda>c. c_id c = cid) (clubs w) = Some club
        \<and> can_approve_membership env w club approver_id = Inr True
        \<and> c_members club = pre @ m # post
        \<and> (\<forall>x\<in>set pre. str env (m_userId x) \<noteq> member_id)
        \<and> str env (m_userId m) = member_id"
  then have s: "approve_membership env club_id member_id approver_id w =
           (Ok ''Membership approved successfully'' Only_message,
            w\<lparr>clubs := replace_one (\<lambda>c. c_id c = cid)
                 (club\<lparr>c_members :=
                    pre @ m\<lparr>m_status := MembershipStatus_value MembershipStatus.ACTIVE\<rparr> # post\<rparr>)
                 (clubs w)\<rparr>)"
    by (intro approve_membership_first) auto
  have "c_id club = cid" using a by (intro find_one_Some_holds [of "\<lambda>c. c_id c = cid"]) auto
  then show "find_one (\<lambda>c. c_id c = cid)
             (clubs (snd (run env (Approve_membership club_id member_id approver_id) w)))
            = Some (club\<lparr>c_members :=
                pre @ m\<lparr>m_status := MembershipStatus_value MembershipStatus.ACTIVE\<rparr> # post\<rparr>)"
    using a by (simp add: s find_one_replace_one)
qed

theorem membership_status_transitions_witness:
  "clubs_rel club_kept (clubs demo_world) (clubs (snd (run demo_env (Join_club ''c1'' ''z1'') demo_world)))
   \<and> ObjectId demo_env ''c1'' = Some ''c1''
   \<and> find_one (\<lambda>c. c_id c = ''c1'') (clubs demo_world) = Some demo_club
   \<and> can_approve_membership demo_env demo_world demo_club ''f1'' = Inr True
   \<and> c_members demo_club = [demo_member ''p1'' ''president'' ''active'',
                             demo_member ''a1'' ''member'' ''active'',
                             demo_member ''b1'' ''member'' ''pending'']
                            @ demo_member ''r1'' ''member'' ''rejected'' # []
   \<and> map_option (\<lambda>c. map m_status (c_members c))
        (find_one (\<lambda>c. c_id c = ''c1'')
          (clubs (snd (run demo_env (Approve_membership ''c1'' ''r1'' ''f1'') demo_world))))
       = Some [''active'', ''active'', ''pending'', ''active'']"
  using membership_status_transitions [of demo_world demo_env "Join_club ''c1'' ''z1''"]
    membership_status_transitions [of demo_world demo_env "Join_club ''c1'' ''z1''"
      "''c1''" "''c1''" demo_club "''f1''"
      "[demo_member ''p1'' ''president'' ''active'', demo_member ''a1'' ''member'' ''active'',
        demo_member ''b1'' ''member'' ''pending'']"
      "demo_member ''r1'' ''member'' ''rejected''" "[]" "''r1''"]
  by (simp add: demo_env_def demo_world_def demo_club_def demo_user_def
        demo_member_def find_one_def can_approve_membership_def privileged_roles_def)

subsection \<open>Identity store\<close>

lemma register_user_users:
  "users (snd (register_user env ud w)) = users w
   \<or> (\<exists>u. users (snd (register_user env ud w)) = users w @ [u]
          \<and> u_email u \<notin> set (map u_email (users w))
          \<and> (u_studentId u = None \<or> u_studentId u \<notin> set (map u_studentId (users w))))"
  by (auto simp: register_user_def Let_def insert_one_def find_one_None_iff)

lemma map_filter_append:
  "List.map_filter f (xs @ ys) = List.map_filter f xs @ List.map_filter f ys"
  by (simp add: List.map_filter_def)

lemma set_map_filter_Some:
  "x \<in> set (List.map_filter f xs) \<longleftrightarrow> Some x \<in> set (map f xs)"
  by (induction xs) (auto simp: List.map_filter_def)

lemma register_user_preserves:
  assumes "unique_emails w" and "unique_student_ids w"
  shows "unique_emails (snd (register_user env ud w))
       \<and> unique_student_ids (snd (register_user env ud w))"
  using register_user_users [of env ud w] assms
  by (auto simp: unique_emails_def unique_student_ids_def map_filter_append
        set_map_filter_Some List.map_filter_simps split: option.splits)

lemma register_users_preserves:
  assumes "unique_emails w" and "unique_student_ids w"
  shows "unique_emails (register_users calls w) \<and> unique_student_ids (register_users calls w)"
  using assms
proof (induction calls arbitrary: w)
  case Nil
  then show ?case by simp
next
  case (Cons call calls)
  obtain env ud where call: "call = (env, ud)" by (cases call)
  from register_user_preserves [OF Cons.prems, of env ud]
  show ?case by (simp add: call Cons.IH)
qed

text \<open>
  Claim C8. Uniqueness of emails and of student-ids is preserved by \<open>register_user\<close>:
  from a store in which every email and every student-id occurs at most once, any sequence
  of \<open>register_user\<close> calls leads to a store in which they still do. A request with
  its required fields whose email is already stored returns the conflict error ``Email
  already exists'' and changes nothing; a student's request with a new email, a year and a
  student-id that is already stored returns ``Student ID already exists'' and changes
  nothing.
\<close>

theorem register_user_uniqueness:
  "(unique_emails w \<and> unique_student_ids w
      \<longrightarrow> unique_emails (register_users calls w) \<and> unique_student_ids (register_users calls w))
   \<and> (ud_name ud \<noteq> None \<and> ud_password ud \<noteq> None \<and> ud_role ud \<noteq> None
        \<and> ud_email ud = Some email \<and> email \<in> set (map u_email (users w))
      \<longrightarrow> register_user env ud w = (Error ''Email already exists'', w))
   \<and> (ud_name ud \<noteq> None \<and> ud_password ud \<noteq> None
        \<and> ud_email ud = Some email \<and> email \<notin> set (map u_email (users w))
        \<and> ud_role ud = Some (UserRole_value STUDENT)
        \<and> ud_studentId ud = Some sid \<and> ud_year ud \<noteq> None
        \<and> Some sid \<in> set (map u_studentId (users w))
      \<longrightarrow> register_user env ud w = (Error ''Student ID already exists'', w))"
proof (intro conjI impI)
  assume "unique_emails w \<and> unique_student_ids w"
  then show "unique_emails (register_users calls w)" "unique_student_ids (register_users calls w)"
    using register_users_preserves [of w calls] by simp_all
next
  assume "ud_name ud \<noteq> None \<and> ud_password ud \<noteq> None \<and> ud_role ud \<noteq> None
        \<and> ud_email ud = Some email \<and> email \<in> set (map u_email (users w))"
  then show "register_user env ud w = (Error ''Email already exists'', w)"
    by (auto simp: register_user_def find_one_None_iff)
next
  assume "ud_name ud \<noteq> None \<and> ud_password ud \<noteq> None
        \<and> ud_email ud = Some email \<and> email \<notin> set (map u_email (users w))
        \<and> ud_role ud = Some (UserRole_value STUDENT)
        \<and> ud_studentId ud = Some sid \<and> ud_year ud \<noteq> None
        \<and> Some sid \<in> set (map u_studentId (users w))"
  then show "register_user env ud w = (Error ''Student ID already exists'', w)"
    by (auto simp: register_user_def find_one_None_iff)
qed

theorem register_user_uniqueness_witness:
  "unique_emails demo_world \<and> unique_student_ids demo_world
   \<and> users (register_users [(demo_env, demo_student), (demo_env_down, demo_student)] demo_world)
       = users demo_world @ [\<lparr>u_id = ''n1'', u_name = ''New'', u_email = ''n@x'',
            u_password = Some ''saltpw'', u_role = ''student'', u_isActive = True,
            u_createdAt = 1000, u_studentId = Some ''S9'', u_year = Some 1,
            u_department = '''', u_clubs = []\<rparr>]
   \<and> unique_emails (register_users [(demo_env, demo_student), (demo_env_down, demo_student)] demo_world)
   \<and> unique_student_ids (register_users [(demo_env, demo_student), (demo_env_down, demo_student)] demo_world)
   \<and> register_user demo_env (demo_student\<lparr>ud_email := Some ''a@x''\<rparr>) demo_world
       = (Error ''Email already exists'', demo_world)
   \<and> register_user demo_env (demo_student\<lparr>ud_studentId := Some ''S2''\<rparr>) demo_world
       = (Error ''Student ID already exists'', demo_world)"
  using register_user_uniqueness [of demo_world
          "[(demo_env, demo_student), (demo_env_down, demo_student)]"
          "demo_student\<lparr>ud_email := Some ''a@x''\<rparr>" "''a@x''" demo_env]
    register_user_uniqueness [of demo_world
          "[(demo_env, demo_student), (demo_env_down, demo_student)]"
          "demo_student\<lparr>ud_studentId := Some ''S2''\<rparr>" "''n@x''" demo_env "''S2''"]
  by (simp add: demo_env_def demo_env_down_def demo_world_def demo_user_def demo_student_def
        unique_emails_def unique_student_ids_def List.map_filter_simps
        register_user_def find_one_def insert_one_def Let_def)

subsection \<open>Notification channel\<close>

lemma publish_notification_raises:
  "publish env channel msg = Some e \<Longrightarrow>
   publish_notification env channel msg w
     = w\<lparr>stdout := stdout w @ [''Failed to publish notification: '' @ e]\<rparr>"
  by (simp add: publish_notification_def)

lemma db_publish_notification: "db (publish_notification env c m w) = db w"
  by (simp add: db_def collections_publish_notification)

lemma member_loop_publish: "member_loop (env\<lparr>publish := p\<rparr>) ms u = member_loop env ms u"
  by (simp add: member_loop_iff)

lemma can_create_event_publish:
  "can_create_event (env\<lparr>publish := p\<rparr>) w club u = can_create_event env w club u"
  by (simp add: can_create_event_def active_loop_iff split: option.splits)

text \<open>Pushing a projection of the result through the branches of an operation.\<close>

lemmas push_fst = option.case_distrib [of fst] sum.case_distrib [of fst] if_distrib [of fst]

lemmas push_snd = option.case_distrib [of snd] sum.case_distrib [of snd] if_distrib [of snd]

lemmas push_db = option.case_distrib [of db] sum.case_distrib [of db] if_distrib [of db]

lemma create_club_publish:
  "fst (create_club (env\<lparr>publish := p\<rparr>) cd creator_id w) = fst (create_club env cd creator_id w)
   \<and> db (snd (create_club (env\<lparr>publish := p\<rparr>) cd creator_id w))
       = db (snd (create_club env cd creator_id w))"
  by (simp add: create_club_def Let_def db_publish_notification push_fst push_snd push_db
        cong: option.case_cong if_cong)

lemma join_club_publish:
  "fst (join_club (env\<lparr>publish := p\<rparr>) club_id user_id w) = fst (join_club env club_id user_id w)
   \<and> db (snd (join_club (env\<lparr>publish := p\<rparr>) club_id user_id w))
       = db (snd (join_club env club_id user_id w))"
  by (simp add: join_club_def Let_def db_publish_notification member_loop_publish
        push_fst push_snd push_db cong: option.case_cong if_cong)

lemma create_event_publish:
  "fst (create_event (env\<lparr>publish := p\<rparr>) ed creator_id w) = fst (create_event env ed creator_id w)
   \<and> db (snd (create_event (env\<lparr>publish := p\<rparr>) ed creator_id w))
       = db (snd (create_event env ed creator_id w))"
  by (simp add: create_event_def Let_def db_publish_notification can_create_event_publish
        push_fst push_snd push_db cong: option.case_cong sum.case_cong if_cong)

lemma approve_event_publish:
  "fst (approve_event (env\<lparr>publish := p\<rparr>) event_id ad approver_id w)
     = fst (approve_event env event_id ad approver_id w)
   \<and> db (snd (approve_event (env\<lparr>publish := p\<rparr>) event_id ad approver_id w))
       = db (snd (approve_event env event_id ad approver_id w))"
  by (simp add: approve_event_def Let_def db_publish_notification
        push_fst push_snd push_db cong: option.case_cong if_cong)

text \<open>
  Claim C9. A failure of the publish never fails the parent operation. When the publish
  raises, \<open>_publish_notification\<close> returns normally, having printed one line that
  carries the exception's text. For each of \<open>create_club\<close>, \<open>join_club\<close>,
  \<open>create_event\<close> and \<open>approve_event\<close>, the reply and the three stored collections are
  the same whatever the publish does, so a publish that raises leaves the operation with
  the reply, success included, that it has when the publish returns.
\<close>

theorem publish_failure_does_not_fail_operation:
  "(publish env channel msg = Some e
      \<longrightarrow> publish_notification env channel msg w
            = w\<lparr>stdout := stdout w @ [''Failed to publish notification: '' @ e]\<rparr>)
   \<and> fst (create_club (env\<lparr>publish := p\<rparr>) cd creator_id w) = fst (create_club env cd creator_id w)
   \<and> db (snd (create_club (env\<lparr>publish := p\<rparr>) cd creator_id w))
       = db (snd (create_club env cd creator_id w))
   \<and> fst (join_club (env\<lparr>publish := p\<rparr>) club_id user_id w) = fst (join_club env club_id user_id w)
   \<and> db (snd (join_club (env\<lparr>publish := p\<rparr>) club_id user_id w))
       = db (snd (join_club env club_id user_id w))
   \<and> fst (create_event (env\<lparr>publish := p\<rparr>) ed organizer_id w) = fst (create_event env ed organizer_id w)
   \<and> db (snd (create_event (env\<lparr>publish := p\<rparr>) ed organizer_id w))
       = db (snd (create_event env ed organizer_id w))
   \<and> fst (approve_event (env\<lparr>publish := p\<rparr>) event_id ad approver_id w)
       = fst (approve_event env event_id ad approver_id w)
   \<and> db (snd (approve_event (env\<lparr>publish := p\<rparr>) event_id ad approver_id w))
       = db (snd (approve_event env event_id ad approver_id w))"
  by (simp add: publish_notification_raises create_club_publish join_club_publish
        create_event_publish approve_event_publish)

theorem publish_failure_does_not_fail_operation_witness:
  "publish demo_env_down ''club-updates'' [] = Some ''connection refused''
   \<and> publish_notification demo_env_down ''club-updates'' [] demo_world
       = demo_world\<lparr>stdout := [''Failed to publish notification: connection refused'']\<rparr>
   \<and> fst (create_club demo_env_down demo_club_data ''f1'' demo_world)
       = fst (create_club demo_env demo_club_data ''f1'' demo_world)
   \<and> fst (join_club demo_env_down ''c1'' ''z1'' demo_world)
       = Ok ''Membership request sent successfully'' Only_message
   \<and> fst (create_event demo_env_down demo_event_data ''a1'' demo_world)
       = fst (create_event demo_env demo_event_data ''a1'' demo_world)
   \<and> fst (approve_event demo_env_down ''e1'' demo_approval ''f1'' demo_world)
       = Ok ''Event approved successfully'' Only_message
   \<and> stdout (snd (approve_event demo_env_down ''e1'' demo_approval ''f1'' demo_world))
       = [''Failed to publish notification: connection refused'']"
proof -
  note general = publish_failure_does_not_fail_operation
          [where env = demo_env_down and channel = "''club-updates''" and msg = "[]"
             and e = "''connection refused''" and w = demo_world]
  note swallowed = publish_failure_does_not_fail_operation
          [where env = demo_env and p = "\<lambda>c m. Some ''connection refused''" and w = demo_world
             and cd = demo_club_data and creator_id = "''f1''"
             and club_id = "''c1''" and user_id = "''z1''"
             and ed = demo_event_data and organizer_id = "''a1''"
             and event_id = "''e1''" and ad = demo_approval and approver_id = "''f1''"]
  have raises: "publish demo_env_down ''club-updates'' [] = Some ''connection refused''"
    by (simp add: demo_env_down_def)
  have joined: "fst (join_club demo_env ''c1'' ''z1'' demo_world)
       = Ok ''Membership request sent successfully'' Only_message"
    by code_simp
  have approved: "fst (approve_event demo_env ''e1'' demo_approval ''f1'' demo_world)
       = Ok ''Event approved successfully'' Only_message"
    by code_simp
  have printed: "stdout (snd (approve_event demo_env_down ''e1'' demo_approval ''f1'' demo_world))
       = [''Failed to publish notification: connection refused'']"
    by code_simp
  have out: "stdout demo_world = []"
    by (simp add: demo_world_def)
  from general swallowed raises joined approved printed out show ?thesis
    by (simp add: demo_env_down_def [symmetric])
qed

end
